theory Spec2Isabelle
  imports Main
begin

section \<open>Bytes, errors and streams\<close>

text \<open>
  Go strings and byte slices are sequences of bytes; both are modelled as \<open>char list\<close>.
  Every \<open>error\<close> value that the forwarding code can return is a value of the datatype
  below; \<open>nil\<close> is \<open>None\<close> in an \<open>error option\<close>.
\<close>

type_synonym bytes = string

datatype error =
    ErrGzipHeader
  | ErrJSONDecode
  | ErrJSONEncode
  | ErrParseForm
  | ErrParseQuery
  | ErrNotMultipart
  | ErrMessageTooLarge
  | ErrOpen
  | ErrRead
  | ErrWrite
  | ErrTransport
  | ErrPostTooLarge
  | ErrNilDereference

text \<open>
  An \<open>io.Reader\<close> is described by what reading it to the end yields: the bytes
  delivered, and then either end-of-file (\<open>None\<close>) or a read error.
\<close>

record stream =
  sdata :: bytes
  serr :: "error option"

section \<open>net/http headers\<close>

text \<open>
  \<open>http.Header\<close> is a Go map from header name to the list of its values. The
  methods \<open>Add\<close>, \<open>Set\<close> and \<open>Get\<close> first bring the key into canonical MIME form
  (\<open>textproto.CanonicalMIMEHeaderKey\<close>): if every byte of the key is a valid header
  field byte, the first letter and each letter after a hyphen is upper-cased and every
  other letter lower-cased; a key holding any other byte is left as it is.
\<close>

type_synonym header = "string \<rightharpoonup> string list"

definition lowers :: string where
  "lowers = ''abcdefghijklmnopqrstuvwxyz''"

definition uppers :: string where
  "uppers = ''ABCDEFGHIJKLMNOPQRSTUVWXYZ''"

definition digits :: string where
  "digits = ''0123456789''"

definition to_upper :: "char \<Rightarrow> char" where
  "to_upper c = (case map_of (zip lowers uppers) c of Some u \<Rightarrow> u | None \<Rightarrow> c)"

definition to_lower :: "char \<Rightarrow> char" where
  "to_lower c = (case map_of (zip uppers lowers) c of Some l \<Rightarrow> l | None \<Rightarrow> c)"

definition validHeaderFieldByte :: "char \<Rightarrow> bool" where
  "validHeaderFieldByte c \<longleftrightarrow>
     c \<in> set (''!#$%&*+-.^_|~'' @ [CHR 0x27, CHR 0x60] @ digits @ lowers @ uppers)"

definition canonical_byte :: "bool \<Rightarrow> char \<Rightarrow> char" where
  "canonical_byte upper c = (if upper then to_upper c else to_lower c)"

fun canonical_from :: "bool \<Rightarrow> string \<Rightarrow> string" where
  "canonical_from upper [] = []"
| "canonical_from upper (c # cs) =
     canonical_byte upper c # canonical_from (canonical_byte upper c = CHR ''-'') cs"

definition CanonicalMIMEHeaderKey :: "string \<Rightarrow> string" where
  "CanonicalMIMEHeaderKey s =
     (if list_all validHeaderFieldByte s then canonical_from True s else s)"

definition values_of :: "header \<Rightarrow> string \<Rightarrow> string list" where
  "values_of h k = (case h k of None \<Rightarrow> [] | Some vs \<Rightarrow> vs)"

definition header_Add :: "header \<Rightarrow> string \<Rightarrow> string \<Rightarrow> header" where
  "header_Add h key v =
     (let k = CanonicalMIMEHeaderKey key in h(k \<mapsto> values_of h k @ [v]))"

definition header_Set :: "header \<Rightarrow> string \<Rightarrow> string \<Rightarrow> header" where
  "header_Set h key v = h(CanonicalMIMEHeaderKey key \<mapsto> [v])"

definition header_Get :: "header \<Rightarrow> string \<Rightarrow> string" where
  "header_Get h key =
     (case h (CanonicalMIMEHeaderKey key) of
        None \<Rightarrow> ''''
      | Some [] \<Rightarrow> ''''
      | Some (v # _) \<Rightarrow> v)"

text \<open>
  A header map that the code ranges over (\<open>for k, vv := range res.Header\<close>) is given
  as the list of its entries in the order the iteration visits them; Go leaves that order
  unspecified, so a statement about the loop is proved for every list. Look-ups go
  through \<open>map_of\<close>.
\<close>

type_synonym header_entries = "(string \<times> string list) list"

section \<open>strconv.Itoa\<close>

definition digit_char :: "nat \<Rightarrow> char" where
  "digit_char d = digits ! d"

function Itoa :: "nat \<Rightarrow> string" where
  "Itoa n = (if n < 10 then [digit_char n] else Itoa (n div 10) @ [digit_char (n mod 10)])"
  by pat_completeness auto
termination
  by (relation "measure id") auto

declare Itoa.simps [simp del]

section \<open>The outbound response sink\<close>

text \<open>
  \<open>http.ResponseWriter\<close> offers \<open>Header()\<close>, \<open>WriteHeader\<close> and \<open>Write\<close>. Its contract:
  \<open>WriteHeader\<close> sends the status with the header map as it is at that moment, a
  \<open>Write\<close> before any \<open>WriteHeader\<close> does the same with status 200, and a change of the
  header map after that has no effect on the response. The sink keeps the header map that
  \<open>Header()\<close> returns (\<open>headers\<close>), the header map that was sent (\<open>committed\<close>,
  \<open>None\<close> until the first \<open>WriteHeader\<close> or \<open>Write\<close>), the bytes it accepted as the
  body, and the chronological log of every call the forwarding code made on it.
  \<open>wfail\<close> is the answer of the host's connection: \<open>None\<close> when writes succeed,
  otherwise the error that \<open>Write\<close> returns (and then no byte is accepted).
\<close>

datatype sink_event =
    EvAdd string string
  | EvSet string string
  | EvWriteHeader int
  | EvWrite bytes
  | EvCopy bytes

record sink =
  headers :: header
  committed :: "header option"
  events :: "sink_event list"
  body :: bytes
  wfail :: "error option"

definition commit :: "sink \<Rightarrow> sink" where
  "commit w = (case committed w of None \<Rightarrow> w\<lparr>committed := Some (headers w)\<rparr> | Some h \<Rightarrow> w)"

text \<open>
  The headers of the outbound response: the header map that was sent, or, as long as
  nothing was sent, the header map that would be.
\<close>

definition response_headers :: "sink \<Rightarrow> header" where
  "response_headers w = (case committed w of None \<Rightarrow> headers w | Some h \<Rightarrow> h)"

definition sink_Add :: "sink \<Rightarrow> string \<Rightarrow> string \<Rightarrow> sink" where
  "sink_Add w k v =
     w\<lparr>headers := header_Add (headers w) k v, events := events w @ [EvAdd k v]\<rparr>"

definition sink_Set :: "sink \<Rightarrow> string \<Rightarrow> string \<Rightarrow> sink" where
  "sink_Set w k v =
     w\<lparr>headers := header_Set (headers w) k v, events := events w @ [EvSet k v]\<rparr>"

definition sink_WriteHeader :: "sink \<Rightarrow> int \<Rightarrow> sink" where
  "sink_WriteHeader w code = (commit w)\<lparr>events := events w @ [EvWriteHeader code]\<rparr>"

definition sink_Write :: "sink \<Rightarrow> bytes \<Rightarrow> sink \<times> error option" where
  "sink_Write w bs =
     (case wfail w of
        None \<Rightarrow> ((commit w)\<lparr>body := body w @ bs, events := events w @ [EvWrite bs]\<rparr>, None)
      | Some e \<Rightarrow> ((commit w)\<lparr>events := events w @ [EvWrite bs]\<rparr>, Some e))"

text \<open>
  \<open>io.Copy(writer, src)\<close> moves the bytes of \<open>src\<close> into the sink until end-of-file
  or the first error. With nothing to copy no \<open>Write\<close> is issued, so only the read
  result is reported.
\<close>

definition io_Copy :: "sink \<Rightarrow> stream \<Rightarrow> sink \<times> error option" where
  "io_Copy w src =
     (let w' = w\<lparr>events := events w @ [EvCopy (sdata src)]\<rparr>
      in if sdata src = [] then (w', serr src)
         else (case wfail w of
                 None \<Rightarrow> ((commit w')\<lparr>body := body w @ sdata src\<rparr>, serr src)
               | Some e \<Rightarrow> (commit w', Some e)))"

section \<open>net/url: escaping, URL.String and Values\<close>

text \<open>
  \<open>url.URL.String\<close> prints the path and the fragment in escaped form
  (\<open>EscapedPath\<close>, \<open>EscapedFragment\<close>; no \<open>RawPath\<close> or \<open>RawFragment\<close> is set on
  the URL that \<open>ProxyAPI\<close> builds), the raw query as it is, and puts \<open>./\<close> in front
  of a relative path whose first segment holds a colon. \<open>shouldEscape\<close> and
  \<open>escape\<close> follow net/url for the three modes that occur here.
\<close>

record url =
  Path :: string
  RawQuery :: string
  Fragment :: string

datatype encoding = encodePath | encodeFragment | encodeQueryComponent

definition shouldEscape :: "char \<Rightarrow> encoding \<Rightarrow> bool" where
  "shouldEscape c mode =
     (if c \<in> set (lowers @ uppers @ digits) then False
      else if c \<in> set ''-_.~'' then False
      else if c \<in> set ''$&+,/:;=?@'' then
        (case mode of
           encodePath \<Rightarrow> c = CHR ''?''
         | encodeQueryComponent \<Rightarrow> True
         | encodeFragment \<Rightarrow> False)
      else if mode = encodeFragment \<and> c \<in> set ''!()*'' then False
      else True)"

definition upperhex :: "nat \<Rightarrow> char" where
  "upperhex n = ''0123456789ABCDEF'' ! n"

definition escape_byte :: "encoding \<Rightarrow> char \<Rightarrow> string" where
  "escape_byte mode c =
     (if shouldEscape c mode then
        (if c = CHR '' '' \<and> mode = encodeQueryComponent then ''+''
         else [CHR ''%'', upperhex ((of_char c :: nat) div 16), upperhex ((of_char c :: nat) mod 16)])
      else [c])"

definition escape :: "string \<Rightarrow> encoding \<Rightarrow> string" where
  "escape s mode = concat (map (escape_byte mode) s)"

definition QueryEscape :: "string \<Rightarrow> string" where
  "QueryEscape s = escape s encodeQueryComponent"

definition EscapedPath :: "url \<Rightarrow> string" where
  "EscapedPath u = (if Path u = ''*'' then ''*'' else escape (Path u) encodePath)"

definition EscapedFragment :: "url \<Rightarrow> string" where
  "EscapedFragment u = escape (Fragment u) encodeFragment"

definition url_String :: "url \<Rightarrow> string" where
  "url_String u =
     (let path = EscapedPath u in
      (if CHR '':'' \<in> set (takeWhile (\<lambda>c. c \<noteq> CHR ''/'') path) then ''./'' else [])
      @ path
      @ (if RawQuery u \<noteq> [] then ''?'' @ RawQuery u else [])
      @ (if Fragment u \<noteq> [] then ''#'' @ EscapedFragment u else []))"

text \<open>
  \<open>url.Values\<close> is a Go map from key to value list, given (like a header that is
  ranged over) by its entries. \<open>Add\<close> appends to the key's list. \<open>Encode\<close> sorts the
  keys bytewise and joins the escaped \<open>key=value\<close> pairs with \<open>&\<close>.
\<close>

type_synonym url_values = "(string \<times> string list) list"

fun values_Add :: "(string \<times> 'a list) list \<Rightarrow> string \<Rightarrow> 'a \<Rightarrow> (string \<times> 'a list) list" where
  "values_Add [] k v = [(k, [v])]"
| "values_Add ((k', vs) # rest) k v =
     (if k' = k then (k', vs @ [v]) # rest else (k', vs) # values_Add rest k v)"

definition values_of_key :: "url_values \<Rightarrow> string \<Rightarrow> string list" where
  "values_of_key m k = (case map_of m k of None \<Rightarrow> [] | Some vs \<Rightarrow> vs)"

fun string_le :: "string \<Rightarrow> string \<Rightarrow> bool" where
  "string_le [] _ = True"
| "string_le (_ # _) [] = False"
| "string_le (a # as) (b # bs) =
     ((of_char a :: nat) < of_char b \<or> (a = b \<and> string_le as bs))"

fun insert_key :: "string \<Rightarrow> string list \<Rightarrow> string list" where
  "insert_key k [] = [k]"
| "insert_key k (x # xs) = (if string_le k x then k # x # xs else x # insert_key k xs)"

definition sort_keys :: "string list \<Rightarrow> string list" where
  "sort_keys ks = foldr insert_key ks []"

definition encode_pair :: "string \<Rightarrow> string \<Rightarrow> string \<Rightarrow> string" where
  "encode_pair keyEscaped buf v =
     (if buf \<noteq> [] then buf @ ''&'' else buf) @ keyEscaped @ ''='' @ QueryEscape v"

definition values_Encode :: "url_values \<Rightarrow> string" where
  "values_Encode m =
     fold (\<lambda>k buf. fold (\<lambda>v buf. encode_pair (QueryEscape k) buf v) (values_of_key m k) buf)
       (sort_keys (map fst m)) []"

section \<open>mime/multipart\<close>

text \<open>
  An uploaded file as \<open>multipart.FileHeader\<close> presents it: its original file name,
  the outcome of \<open>Open\<close> (\<open>fopen\<close> is the error, if any) and what reading the opened
  file yields. The parts of an inbound multipart body are scalar values or file uploads;
  each comes with its MIME header and its form name.
\<close>

record file_header =
  Filename :: string
  fopen :: "error option"
  fcontent :: stream

datatype in_part =
    ValuePart header_entries string string
  | FileUpload header_entries string file_header

record multipart_form =
  Value :: url_values
  File :: "(string \<times> file_header list) list"

text \<open>
  A \<open>multipart.Writer\<close> over a \<open>bytes.Buffer\<close>: the buffer's content is determined by
  the boundary, the parts written so far and whether the closing boundary was written.
  Writing into a \<open>bytes.Buffer\<close> returns no error, so \<open>WriteField\<close> and
  \<open>CreateFormFile\<close> always succeed; they keep their Go result type.
\<close>

datatype out_part =
    FieldPart string string
  | FilePart string string bytes

record mwriter =
  boundary :: string
  parts :: "out_part list"
  finished :: bool

definition NewWriter :: "string \<Rightarrow> mwriter" where
  "NewWriter b = \<lparr>boundary = b, parts = [], finished = False\<rparr>"

definition WriteField :: "mwriter \<Rightarrow> string \<Rightarrow> string \<Rightarrow> error + mwriter" where
  "WriteField mw k v = Inr (mw\<lparr>parts := parts mw @ [FieldPart k v]\<rparr>)"

definition CreateFormFile :: "mwriter \<Rightarrow> string \<Rightarrow> string \<Rightarrow> error + mwriter" where
  "CreateFormFile mw k filename = Inr (mw\<lparr>parts := parts mw @ [FilePart k filename []]\<rparr>)"

text \<open>\<open>io.Copy(part, f)\<close>: the bytes read from the file go into the part created last.\<close>

definition append_to_last :: "out_part list \<Rightarrow> bytes \<Rightarrow> out_part list" where
  "append_to_last ps bs =
     (case rev ps of
        FilePart k n c # front \<Rightarrow> rev front @ [FilePart k n (c @ bs)]
      | _ \<Rightarrow> ps)"

definition copy_to_part :: "mwriter \<Rightarrow> stream \<Rightarrow> mwriter \<times> error option" where
  "copy_to_part mw f = (mw\<lparr>parts := append_to_last (parts mw) (sdata f)\<rparr>, serr f)"

definition mwriter_Close :: "mwriter \<Rightarrow> mwriter" where
  "mwriter_Close mw = mw\<lparr>finished := True\<rparr>"

definition FormDataContentType :: "mwriter \<Rightarrow> string" where
  "FormDataContentType mw =
     ''multipart/form-data; boundary='' @
       (if list_ex (\<lambda>c. c \<in> set (''()<>@,;:/[]?= '' @ [CHR 0x5C, CHR 0x22])) (boundary mw)
        then [CHR 0x22] @ boundary mw @ [CHR 0x22]
        else boundary mw)"

section \<open>The inbound request\<close>

text \<open>
  The fields of \<open>http.Request\<close> that the forwarding code reads or changes.
  \<open>BodyClosed\<close> records that \<open>Body.Close\<close> was called. \<open>PostForm\<close>, \<open>Form\<close> and
  \<open>MultipartForm\<close> are \<open>None\<close> (nil) until the request has been parsed.
\<close>

record request =
  Method :: string
  URL :: url
  Header :: header_entries
  Body :: stream
  BodyClosed :: bool
  PostForm :: "url_values option"
  Form :: "url_values option"
  MultipartForm :: "multipart_form option"

text \<open>
  What an encoder hands back to \<open>ProxyAPI\<close> as the outbound body (an \<open>io.Reader\<close>):
  nil, the inbound request's own body stream, an in-memory buffer, a string reader, or
  the buffer behind a multipart writer.
\<close>

datatype body_reader =
    NilReader
  | InboundBody
  | BytesBuffer bytes
  | StringsReader string
  | MultipartBuffer mwriter

section \<open>Options, collaborators and library functions\<close>

text \<open>
  Modelled from the spec: the \<open>Options\<close> struct of package \<open>proxy\<close> is declared outside
  the source file; the record has the fields that \<open>ProxyAPI\<close> and the encoders use,
  with the meaning section 3 of the specification gives them. An absent interceptor
  (nil) is \<open>None\<close>. \<open>'j\<close> is the type of decoded JSON values (\<open>interface{}\<close>).
\<close>

record 'j options =
  RequestTimeout :: nat
  MaxUploadSize :: int
  TransferResponseHeaders :: "string list"
  URLInterceptor :: "(url \<Rightarrow> url) option"
  RequestInterceptor :: "(header \<Rightarrow> header) option"
  RequestJSONInterceptor :: "('j \<Rightarrow> 'j) option"
  RequestFormInterceptor :: "(url_values \<Rightarrow> url_values) option"
  RequestMultipartFormInterceptor :: "(mwriter \<Rightarrow> mwriter) option"
  ResponseJSONInterceptor :: "('j \<Rightarrow> 'j) option"

text \<open>
  Modelled from the spec: package \<open>request\<close> (the outbound request and its options) and
  the client's \<open>DoAPIRequest\<close> are outside the source file. An outbound request is the
  record of what \<open>NewAPIRequest\<close> receives; \<open>DoAPIRequest\<close> is the collaborator of
  section 6: it takes the outbound request and answers with a response or an error.
\<close>

datatype request_option =
    WithRequestInterceptors "header \<Rightarrow> header"
  | WithRequestTimeout nat
  | AppendURLInterceptors "url \<Rightarrow> url"
  | AppendRequestInterceptors "header \<Rightarrow> header"

record api_request =
  apiMethod :: string
  apiPath :: string
  apiBody :: body_reader
  apiOptions :: "request_option list"

definition NewAPIRequest :: "string \<Rightarrow> string \<Rightarrow> body_reader \<Rightarrow> request_option list \<Rightarrow> api_request" where
  "NewAPIRequest m p b os = \<lparr>apiMethod = m, apiPath = p, apiBody = b, apiOptions = os\<rparr>"

record response =
  StatusCode :: int
  ResHeader :: header_entries
  ResBody :: stream

record client =
  Timeout :: nat
  DoAPIRequest :: "api_request \<Rightarrow> error + response"

text \<open>
  The standard-library functions whose result depends on the bytes they read are
  parameters: JSON decoding and encoding, the gzip reader, the media type parser of
  package mime (media type and error), the query parser of net/url (values and first
  error), the multipart reader, and the random boundary that \<open>multipart.NewWriter\<close>
  draws.
\<close>

record 'j env =
  json_Decode :: "stream \<Rightarrow> error + 'j"
  json_Encode :: "'j \<Rightarrow> error + bytes"
  gzip_NewReader :: "stream \<Rightarrow> error + stream"
  ParseMediaType :: "string \<Rightarrow> string \<times> error option"
  ParseQuery :: "string \<Rightarrow> url_values \<times> error option"
  multipartReader :: "header_entries \<Rightarrow> stream \<Rightarrow> error + in_part list"
  randomBoundary :: string

section \<open>net/http: ParseForm and ParseMultipartForm\<close>

text \<open>
  net/http's \<open>parsePostForm\<close>: the body is parsed as a query string only when the media
  type of the \<open>Content-Type\<close> header (\<open>application/octet-stream\<close> when the header is
  empty) is \<open>application/x-www-form-urlencoded\<close>; at most 10 MiB are accepted; any
  other media type, \<open>multipart/form-data\<close> included, yields no values.
\<close>

definition parsePostForm :: "'j env \<Rightarrow> header_entries \<Rightarrow> stream \<Rightarrow> url_values \<times> error option" where
  "parsePostForm env hdr b =
     (let ct = header_Get (map_of hdr) ''Content-Type'';
          mt = ParseMediaType env (if ct = [] then ''application/octet-stream'' else ct)
      in if fst mt = ''application/x-www-form-urlencoded'' then
           (if int (length (sdata b)) > 10 * 2 ^ 20 then ([], Some ErrPostTooLarge)
            else case serr b of
                   Some e \<Rightarrow> ([], if snd mt = None then Some e else snd mt)
                 | None \<Rightarrow>
                     (fst (ParseQuery env (sdata b)),
                      if snd mt = None then snd (ParseQuery env (sdata b)) else snd mt))
         else ([], snd mt))"

text \<open>
  \<open>Request.ParseForm\<close> fills \<open>PostForm\<close> from the body (for POST, PUT and PATCH only)
  and \<open>Form\<close> from the body fields followed by the query parameters of the URL; it
  reports the first error of the two parsers.
\<close>

definition copyValues :: "url_values \<Rightarrow> url_values \<Rightarrow> url_values" where
  "copyValues dst src = fold (\<lambda>kv d. fold (\<lambda>v d. values_Add d (fst kv) v) (snd kv) d) src dst"

definition parsed_PostForm :: "'j env \<Rightarrow> request \<Rightarrow> url_values \<times> error option" where
  "parsed_PostForm env r =
     (case PostForm r of
        Some pf \<Rightarrow> (pf, None)
      | None \<Rightarrow>
          if Method r = ''POST'' \<or> Method r = ''PUT'' \<or> Method r = ''PATCH''
          then parsePostForm env (Header r) (Body r)
          else ([], None))"

definition ParseForm :: "'j env \<Rightarrow> request \<Rightarrow> request \<times> error option" where
  "ParseForm env r =
     (let pf = fst (parsed_PostForm env r);
          err = snd (parsed_PostForm env r);
          r1 = r\<lparr>PostForm := Some pf\<rparr>
      in case Form r of
           Some f \<Rightarrow> (r1, err)
         | None \<Rightarrow>
             (let q = ParseQuery env (RawQuery (URL r))
              in (r1\<lparr>Form := Some (copyValues (copyValues [] pf) (fst q))\<rparr>,
                  if err = None then snd q else err)))"

text \<open>
  \<open>multipart.Reader.ReadForm(maxMemory)\<close>. Two budgets are kept: \<open>maxFileMemoryBytes\<close>
  (initially \<open>maxMemory\<close>) bounds the file content held in memory, and
  \<open>maxMemoryBytes\<close> (initially \<open>maxMemory\<close> plus 10 MiB, as an \<open>int64\<close> sum: the
  largest \<open>int64\<close> when it overflows and zero when it is not positive) bounds everything
  held in memory. Reading a part's MIME header fails when the header does not fit the
  remaining \<open>maxMemoryBytes\<close> or has more lines than \<open>maxHeaders\<close> allows; at most
  \<open>maxParts\<close> parts are read. A named part is charged its name and 200 bytes; a value
  is charged its length; a file is charged its header size, 300 bytes more and, when its
  content fits \<open>maxFileMemoryBytes\<close>, its content. A file whose content does not fit
  \<open>maxFileMemoryBytes\<close> goes to a temporary file on disk and is accepted whatever its
  size: \<open>ErrMessageTooLarge\<close> is returned only when a budget for what is held in memory,
  the part count or the header count is exceeded.
\<close>

definition mimeHeaderSize :: "header_entries \<Rightarrow> int" where
  "mimeHeaderSize h =
     400 + (\<Sum>kv \<leftarrow> h. int (length (fst kv)) + 200 + (\<Sum>v \<leftarrow> snd kv. int (length v)))"

definition header_lines :: "header_entries \<Rightarrow> int" where
  "header_lines h = (\<Sum>kv \<leftarrow> h. int (length (snd kv)))"

definition header_readable :: "header_entries \<Rightarrow> int \<Rightarrow> int \<Rightarrow> bool" where
  "header_readable h maxMemoryBytes maxHeaders \<longleftrightarrow>
     h = [] \<or> (mimeHeaderSize h \<le> maxMemoryBytes \<and> header_lines h \<le> maxHeaders)"

definition maxFileMemoryBytes_of :: "int \<Rightarrow> int" where
  "maxFileMemoryBytes_of maxMemory = (if maxMemory = 2 ^ 63 - 1 then maxMemory - 1 else maxMemory)"

definition maxMemoryBytes_of :: "int \<Rightarrow> int" where
  "maxMemoryBytes_of maxMemory =
     (if maxMemory + 10 * 2 ^ 20 > 2 ^ 63 - 1 then 2 ^ 63 - 1
      else if maxMemory + 10 * 2 ^ 20 \<le> 0 then 0
      else maxMemory + 10 * 2 ^ 20)"

fun ReadForm_parts ::
  "in_part list \<Rightarrow> int \<Rightarrow> int \<Rightarrow> int \<Rightarrow> int \<Rightarrow> multipart_form \<Rightarrow> error + multipart_form" where
  "ReadForm_parts [] maxFileMemoryBytes maxMemoryBytes maxParts maxHeaders form = Inr form"
| "ReadForm_parts (ValuePart h name v # ps) maxFileMemoryBytes maxMemoryBytes maxParts maxHeaders form =
     (if \<not> header_readable h maxMemoryBytes maxHeaders then Inl ErrMessageTooLarge
      else if maxParts \<le> 0 then Inl ErrMessageTooLarge
      else if name = [] then
        ReadForm_parts ps maxFileMemoryBytes maxMemoryBytes (maxParts - 1) maxHeaders form
      else if maxMemoryBytes - int (length name) - 200 < 0 then Inl ErrMessageTooLarge
      else if maxMemoryBytes - int (length name) - 200 - int (length v) < 0
        then Inl ErrMessageTooLarge
      else ReadForm_parts ps maxFileMemoryBytes
             (maxMemoryBytes - int (length name) - 200 - int (length v)) (maxParts - 1) maxHeaders
             (form\<lparr>Value := values_Add (Value form) name v\<rparr>))"
| "ReadForm_parts (FileUpload h name fh # ps) maxFileMemoryBytes maxMemoryBytes maxParts maxHeaders form =
     (if \<not> header_readable h maxMemoryBytes maxHeaders then Inl ErrMessageTooLarge
      else if maxParts \<le> 0 then Inl ErrMessageTooLarge
      else if name = [] then
        ReadForm_parts ps maxFileMemoryBytes maxMemoryBytes (maxParts - 1) maxHeaders form
      else if maxMemoryBytes - int (length name) - 200 < 0 then Inl ErrMessageTooLarge
      else if maxMemoryBytes - int (length name) - 200 - mimeHeaderSize h - 300 < 0
        then Inl ErrMessageTooLarge
      else if int (length (sdata (fcontent fh))) > maxFileMemoryBytes
        then ReadForm_parts ps maxFileMemoryBytes
               (maxMemoryBytes - int (length name) - 200 - mimeHeaderSize h - 300)
               (maxParts - 1) (maxHeaders - header_lines h)
               (form\<lparr>File := values_Add (File form) name fh\<rparr>)
      else ReadForm_parts ps (maxFileMemoryBytes - int (length (sdata (fcontent fh))))
             (maxMemoryBytes - int (length name) - 200 - mimeHeaderSize h - 300
                - int (length (sdata (fcontent fh))))
             (maxParts - 1) (maxHeaders - header_lines h)
             (form\<lparr>File := values_Add (File form) name fh\<rparr>))"

definition ReadForm :: "in_part list \<Rightarrow> int \<Rightarrow> error + multipart_form" where
  "ReadForm ps maxMemory =
     ReadForm_parts ps (maxFileMemoryBytes_of maxMemory) (maxMemoryBytes_of maxMemory) 1000 10000
       \<lparr>Value = [], File = []\<rparr>"

definition ParseMultipartForm :: "'j env \<Rightarrow> request \<Rightarrow> int \<Rightarrow> request \<times> error option" where
  "ParseMultipartForm env r maxMemory =
     (let p = (if Form r = None then ParseForm env r else (r, None));
          r1 = fst p;
          parseFormErr = snd p
      in case MultipartForm r1 of
           Some f \<Rightarrow> (r1, None)
         | None \<Rightarrow>
             (case multipartReader env (Header r1) (Body r1) of
                Inl e \<Rightarrow> (r1, Some e)
              | Inr ps \<Rightarrow>
                  (case ReadForm ps maxMemory of
                     Inl e \<Rightarrow> (r1, Some e)
                   | Inr f \<Rightarrow>
                       (r1\<lparr>PostForm := Some (copyValues (case PostForm r1 of None \<Rightarrow> [] | Some pf \<Rightarrow> pf) (Value f)),
                           Form := Some (copyValues (case Form r1 of None \<Rightarrow> [] | Some fm \<Rightarrow> fm) (Value f)),
                           MultipartForm := Some f\<rparr>,
                        parseFormErr))))"

section \<open>The request encoders\<close>

text \<open>
  Each encoder returns Go's triple (reader, content type, error) together with the
  state it leaves behind: the inbound request, and the upload file handles that were
  opened and not closed (each named by its field name and file name).
\<close>

type_synonym handle = "string \<times> string"

record encoded =
  enc_req :: request
  enc_files :: "handle list"
  enc_body :: body_reader
  enc_ctype :: string
  enc_err :: "error option"

definition enc_fail :: "request \<Rightarrow> handle list \<Rightarrow> error \<Rightarrow> encoded" where
  "enc_fail r hs e =
     \<lparr>enc_req = r, enc_files = hs, enc_body = NilReader, enc_ctype = [], enc_err = Some e\<rparr>"

definition parseRawRequest :: "'j env \<Rightarrow> request \<Rightarrow> 'j options \<Rightarrow> encoded" where
  "parseRawRequest env req opt =
     (case RequestJSONInterceptor opt of
        Some f \<Rightarrow>
          (let req' = req\<lparr>BodyClosed := True\<rparr> in
           case json_Decode env (Body req) of
             Inl e \<Rightarrow> enc_fail req' [] e
           | Inr m \<Rightarrow>
               (case json_Encode env (f m) of
                  Inl e \<Rightarrow> enc_fail req' [] e
                | Inr buf \<Rightarrow>
                    \<lparr>enc_req = req', enc_files = [], enc_body = BytesBuffer buf,
                     enc_ctype = ''application/json; charset=utf-8'', enc_err = None\<rparr>))
      | None \<Rightarrow>
          (let contentType = header_Get (map_of (Header req)) ''Content-Type'' in
           \<lparr>enc_req = req, enc_files = [], enc_body = InboundBody,
            enc_ctype = (if contentType = [] then ''application/octet-stream'' else contentType),
            enc_err = None\<rparr>))"

definition rebuild_form :: "url_values \<Rightarrow> url_values" where
  "rebuild_form postForm =
     fold (\<lambda>kv form. fold (\<lambda>v form. values_Add form (fst kv) v) (snd kv) form) postForm []"

definition parseFormRequest :: "'j env \<Rightarrow> request \<Rightarrow> 'j options \<Rightarrow> encoded" where
  "parseFormRequest env req opt =
     (case ParseForm env req of
        (req', Some e) \<Rightarrow> enc_fail req' [] e
      | (req', None) \<Rightarrow>
          (let form0 = rebuild_form (case PostForm req' of None \<Rightarrow> [] | Some pf \<Rightarrow> pf);
               form = (case RequestFormInterceptor opt of Some g \<Rightarrow> g form0 | None \<Rightarrow> form0);
               contentType = header_Get (map_of (Header req')) ''Content-Type''
           in \<lparr>enc_req = req', enc_files = [], enc_body = StringsReader (values_Encode form),
               enc_ctype = (if contentType = [] then ''application/x-www-form-urlencoded'' else contentType),
               enc_err = None\<rparr>))"

fun write_field_values :: "mwriter \<Rightarrow> string \<Rightarrow> string list \<Rightarrow> error + mwriter" where
  "write_field_values mw k [] = Inr mw"
| "write_field_values mw k (v # vv) =
     (case WriteField mw k v of
        Inl e \<Rightarrow> Inl e
      | Inr mw' \<Rightarrow> write_field_values mw' k vv)"

fun write_fields :: "mwriter \<Rightarrow> url_values \<Rightarrow> error + mwriter" where
  "write_fields mw [] = Inr mw"
| "write_fields mw ((k, vv) # rest) =
     (case write_field_values mw k vv of
        Inl e \<Rightarrow> Inl e
      | Inr mw' \<Rightarrow> write_fields mw' rest)"

text \<open>
  The loop over the uploaded files of one field. \<open>hs\<close> is the list of open file
  handles: \<open>v.Open()\<close> adds one, \<open>f.Close()\<close> removes it; the three \<open>return\<close>
  statements of the loop body leave \<open>hs\<close> as it is at that point.
\<close>

fun copy_file_values :: "mwriter \<Rightarrow> handle list \<Rightarrow> string \<Rightarrow> file_header list \<Rightarrow> handle list \<times> (error + mwriter)" where
  "copy_file_values mw hs k [] = (hs, Inr mw)"
| "copy_file_values mw hs k (v # vv) =
     (case fopen v of
        Some e \<Rightarrow> (hs, Inl e)
      | None \<Rightarrow>
          (case CreateFormFile mw k (Filename v) of
             Inl e \<Rightarrow> (hs @ [(k, Filename v)], Inl e)
           | Inr mw1 \<Rightarrow>
               (case copy_to_part mw1 (fcontent v) of
                  (mw2, Some e) \<Rightarrow> (hs @ [(k, Filename v)], Inl e)
                | (mw2, None) \<Rightarrow>
                    copy_file_values mw2 (remove1 (k, Filename v) (hs @ [(k, Filename v)])) k vv)))"

fun copy_files :: "mwriter \<Rightarrow> handle list \<Rightarrow> (string \<times> file_header list) list \<Rightarrow> handle list \<times> (error + mwriter)" where
  "copy_files mw hs [] = (hs, Inr mw)"
| "copy_files mw hs ((k, vv) # rest) =
     (case copy_file_values mw hs k vv of
        (hs', Inl e) \<Rightarrow> (hs', Inl e)
      | (hs', Inr mw') \<Rightarrow> copy_files mw' hs' rest)"

definition parseMultipartFormRequest :: "'j env \<Rightarrow> request \<Rightarrow> 'j options \<Rightarrow> encoded" where
  "parseMultipartFormRequest env req opt =
     (case ParseMultipartForm env req (MaxUploadSize opt) of
        (req', Some e) \<Rightarrow> enc_fail req' [] e
      | (req', None) \<Rightarrow>
          (case MultipartForm req' of
             None \<Rightarrow> enc_fail req' [] ErrNilDereference
           | Some form \<Rightarrow>
               (case write_fields (NewWriter (randomBoundary env)) (Value form) of
                  Inl e \<Rightarrow> enc_fail req' [] e
                | Inr mw1 \<Rightarrow>
                    (case copy_files mw1 [] (File form) of
                       (hs, Inl e) \<Rightarrow> enc_fail req' hs e
                     | (hs, Inr mw2) \<Rightarrow>
                         (let mw3 = (case RequestMultipartFormInterceptor opt of
                                       Some g \<Rightarrow> g mw2
                                     | None \<Rightarrow> mw2)
                          in \<lparr>enc_req = req', enc_files = hs,
                              enc_body = MultipartBuffer (mwriter_Close mw3),
                              enc_ctype = FormDataContentType mw3, enc_err = None\<rparr>)))))"

section \<open>Rendering the upstream response\<close>

text \<open>
  The header transfer of \<open>ProxyAPI\<close>: for each upstream header, the allow-list is
  searched from its start and, at the first entry equal to the header's name, every value
  is added to the sink and the search stops (\<open>break\<close>).
\<close>

fun add_values :: "sink \<Rightarrow> string \<Rightarrow> string list \<Rightarrow> sink" where
  "add_values w k [] = w"
| "add_values w k (v # vv) = add_values (sink_Add w k v) k vv"

fun match_allowed :: "sink \<Rightarrow> string \<Rightarrow> string list \<Rightarrow> string list \<Rightarrow> sink" where
  "match_allowed w k vv [] = w"
| "match_allowed w k vv (h # hs) =
     (if k = h then add_values w k vv else match_allowed w k vv hs)"

fun transfer_headers :: "sink \<Rightarrow> header_entries \<Rightarrow> string list \<Rightarrow> sink" where
  "transfer_headers w [] allow = w"
| "transfer_headers w ((k, vv) # rest) allow =
     transfer_headers (match_allowed w k vv allow) rest allow"

text \<open>
  The response phase of \<open>ProxyAPI\<close>, from the header transfer to the final
  \<open>return\<close>: the sink it leaves and the error it returns.
\<close>

definition json_body_source :: "'j env \<Rightarrow> string \<Rightarrow> stream \<Rightarrow> error + stream" where
  "json_body_source env resContentEncoding resBody =
     (if resContentEncoding = ''gzip'' then gzip_NewReader env resBody else Inr resBody)"

definition render_json :: "'j env \<Rightarrow> ('j \<Rightarrow> 'j) \<Rightarrow> string \<Rightarrow> stream \<Rightarrow> sink \<Rightarrow> sink \<times> error option" where
  "render_json env f resContentEncoding resBody w =
     (case json_body_source env resContentEncoding resBody of
        Inl e \<Rightarrow> (w, Some e)
      | Inr reader \<Rightarrow>
          (case json_Decode env reader of
             Inl e \<Rightarrow> (w, Some e)
           | Inr m \<Rightarrow>
               (case json_Encode env (f m) of
                  Inl e \<Rightarrow> (w, Some e)
                | Inr buf \<Rightarrow>
                    sink_Write
                      (sink_Set
                         (sink_Set w ''Content-Type'' ''application/json; charset=utf-8'')
                         ''Content-Length'' (Itoa (length buf)))
                      buf)))"

definition render_stream :: "response \<Rightarrow> string \<Rightarrow> sink \<Rightarrow> sink \<times> error option" where
  "render_stream res resContentEncoding w =
     (let w1 = sink_Set w ''Content-Type'' (header_Get (map_of (ResHeader res)) ''Content-Type'');
          resContentLength = header_Get (map_of (ResHeader res)) ''Content-Length'';
          w2 = (if resContentLength \<noteq> [] then sink_Set w1 ''Content-Length'' resContentLength else w1);
          w3 = (if resContentEncoding \<noteq> [] then sink_Set w2 ''Content-Encoding'' resContentEncoding else w2)
      in io_Copy w3 (ResBody res))"

definition render_response :: "'j env \<Rightarrow> 'j options \<Rightarrow> response \<Rightarrow> sink \<Rightarrow> sink \<times> error option" where
  "render_response env opt res writer =
     (let w1 = transfer_headers writer (ResHeader res) (TransferResponseHeaders opt);
          w2 = sink_WriteHeader w1 (StatusCode res);
          resContentEncoding = header_Get (map_of (ResHeader res)) ''Content-Encoding''
      in case ResponseJSONInterceptor opt of
           Some f \<Rightarrow> render_json env f resContentEncoding (ResBody res) w2
         | None \<Rightarrow> render_stream res resContentEncoding w2)"

section \<open>ProxyAPI\<close>

definition ProxyRequestTypeNone :: string where
  "ProxyRequestTypeNone = []"

definition ProxyRequestTypeRaw :: string where
  "ProxyRequestTypeRaw = ''RAW''"

definition ProxyRequestTypeForm :: string where
  "ProxyRequestTypeForm = ''FORM''"

definition ProxyRequestTypeMultipartForm :: string where
  "ProxyRequestTypeMultipartForm = ''MULTIPART_FORM''"

text \<open>
  The \<open>switch\<close> over the request type: any string other than the three named
  constants selects the encoder that returns a nil reader and an empty content type.
\<close>

definition reqParseFunc :: "string \<Rightarrow> 'j env \<Rightarrow> request \<Rightarrow> 'j options \<Rightarrow> encoded" where
  "reqParseFunc requestType =
     (if requestType = ProxyRequestTypeRaw then parseRawRequest
      else if requestType = ProxyRequestTypeForm then parseFormRequest
      else if requestType = ProxyRequestTypeMultipartForm then parseMultipartFormRequest
      else (\<lambda>env req opt.
              \<lparr>enc_req = req, enc_files = [], enc_body = NilReader, enc_ctype = [], enc_err = None\<rparr>))"

text \<open>
  The first steps of \<open>ProxyAPI\<close>: an empty path argument is replaced by the string
  form of a URL built from the inbound path, raw query and fragment; an empty method
  argument by the inbound method; and the option functions are applied, in the order
  given, to options that hold only the client's timeout.
\<close>

definition resolve_path :: "string \<Rightarrow> request \<Rightarrow> string" where
  "resolve_path path httpReq =
     (if path = []
      then url_String \<lparr>Path = Path (URL httpReq), RawQuery = RawQuery (URL httpReq),
                       Fragment = Fragment (URL httpReq)\<rparr>
      else path)"

definition resolve_method :: "string \<Rightarrow> request \<Rightarrow> string" where
  "resolve_method method httpReq = (if method = [] then Method httpReq else method)"

definition build_options :: "client \<Rightarrow> ('j options \<Rightarrow> 'j options) list \<Rightarrow> 'j options" where
  "build_options c opts =
     fold (\<lambda>opt_fn opt. opt_fn opt) opts
       \<lparr>RequestTimeout = Timeout c, MaxUploadSize = 0, TransferResponseHeaders = [],
        URLInterceptor = None, RequestInterceptor = None, RequestJSONInterceptor = None,
        RequestFormInterceptor = None, RequestMultipartFormInterceptor = None,
        ResponseJSONInterceptor = None\<rparr>"

text \<open>
  The request interceptor that \<open>ProxyAPI\<close> installs: every inbound header value is
  added to the outbound request, then a non-empty content type of the encoder replaces
  \<open>Content-Type\<close>.
\<close>

definition seed_headers :: "header_entries \<Rightarrow> string \<Rightarrow> header \<Rightarrow> header" where
  "seed_headers inbound reqContentType h =
     (let h1 = fold (\<lambda>kv h. fold (\<lambda>v h. header_Add h (fst kv) v) (snd kv) h) inbound h
      in if reqContentType \<noteq> [] then header_Set h1 ''Content-Type'' reqContentType else h1)"

definition requestOptions :: "request \<Rightarrow> string \<Rightarrow> 'j options \<Rightarrow> request_option list" where
  "requestOptions httpReq reqContentType opt =
     [WithRequestInterceptors (seed_headers (Header httpReq) reqContentType),
      WithRequestTimeout (RequestTimeout opt)]
     @ (case URLInterceptor opt of Some u \<Rightarrow> [AppendURLInterceptors u] | None \<Rightarrow> [])
     @ (case RequestInterceptor opt of Some g \<Rightarrow> [AppendRequestInterceptors g] | None \<Rightarrow> [])"

text \<open>
  What one call of \<open>ProxyAPI\<close> leaves behind: the inbound request, the upload file
  handles still open, the sink, the outbound requests handed to \<open>DoAPIRequest\<close> in
  order, whether the upstream body was closed, and the returned error.
\<close>

record outcome =
  out_req :: request
  out_files :: "handle list"
  out_sink :: sink
  out_sent :: "api_request list"
  out_closed :: bool
  out_err :: "error option"

definition ProxyAPI ::
  "'j env \<Rightarrow> client \<Rightarrow> string \<Rightarrow> string \<Rightarrow> request \<Rightarrow> sink \<Rightarrow> string
     \<Rightarrow> ('j options \<Rightarrow> 'j options) list \<Rightarrow> outcome" where
  "ProxyAPI env c method path httpReq writer requestType opts =
     (let path' = resolve_path path httpReq;
          method' = resolve_method method httpReq;
          opt = build_options c opts;
          enc = reqParseFunc requestType env httpReq opt
      in case enc_err enc of
           Some e \<Rightarrow>
             \<lparr>out_req = enc_req enc, out_files = enc_files enc, out_sink = writer,
              out_sent = [], out_closed = False, out_err = Some e\<rparr>
         | None \<Rightarrow>
             (let apiReq = NewAPIRequest method' path' (enc_body enc)
                             (requestOptions httpReq (enc_ctype enc) opt)
              in case DoAPIRequest c apiReq of
                   Inl e \<Rightarrow>
                     \<lparr>out_req = enc_req enc, out_files = enc_files enc, out_sink = writer,
                      out_sent = [apiReq], out_closed = False, out_err = Some e\<rparr>
                 | Inr res \<Rightarrow>
                     \<lparr>out_req = enc_req enc, out_files = enc_files enc,
                      out_sink = fst (render_response env opt res writer),
                      out_sent = [apiReq], out_closed = True,
                      out_err = snd (render_response env opt res writer)\<rparr>))"

definition ProxyJSONAPI ::
  "'j env \<Rightarrow> client \<Rightarrow> string \<Rightarrow> string \<Rightarrow> request \<Rightarrow> sink
     \<Rightarrow> ('j options \<Rightarrow> 'j options) list \<Rightarrow> outcome" where
  "ProxyJSONAPI env c method path httpReq writer opts =
     ProxyAPI env c method path httpReq writer ProxyRequestTypeRaw opts"

definition ProxyFormAPI ::
  "'j env \<Rightarrow> client \<Rightarrow> string \<Rightarrow> string \<Rightarrow> request \<Rightarrow> sink
     \<Rightarrow> ('j options \<Rightarrow> 'j options) list \<Rightarrow> outcome" where
  "ProxyFormAPI env c method path httpReq writer opts =
     ProxyAPI env c method path httpReq writer ProxyRequestTypeForm opts"

definition ProxyMultipartFormAPI ::
  "'j env \<Rightarrow> client \<Rightarrow> string \<Rightarrow> string \<Rightarrow> request \<Rightarrow> sink
     \<Rightarrow> ('j options \<Rightarrow> 'j options) list \<Rightarrow> outcome" where
  "ProxyMultipartFormAPI env c method path httpReq writer opts =
     ProxyAPI env c method path httpReq writer ProxyRequestTypeMultipartForm opts"

definition TransparentProxyJSONAPI :: "'j env \<Rightarrow> client \<Rightarrow> request \<Rightarrow> sink \<Rightarrow> outcome" where
  "TransparentProxyJSONAPI env c httpReq writer = ProxyJSONAPI env c [] [] httpReq writer []"

definition TransparentProxyFormAPI :: "'j env \<Rightarrow> client \<Rightarrow> request \<Rightarrow> sink \<Rightarrow> outcome" where
  "TransparentProxyFormAPI env c httpReq writer =
     ProxyAPI env c [] [] httpReq writer ProxyRequestTypeForm []"

definition TransparentProxyMultipartFormAPI :: "'j env \<Rightarrow> client \<Rightarrow> request \<Rightarrow> sink \<Rightarrow> outcome" where
  "TransparentProxyMultipartFormAPI env c httpReq writer =
     ProxyAPI env c [] [] httpReq writer ProxyRequestTypeMultipartForm []"

text \<open>
  Modelled from the spec: the option functions of package \<open>proxy\<close> are outside the
  source file; each sets one field of the options (section 3 of the specification:
  options are folded over the base value in the order supplied).
\<close>

definition WithTransferResponseHeaders :: "string list \<Rightarrow> 'j options \<Rightarrow> 'j options" where
  "WithTransferResponseHeaders hs opt = opt\<lparr>TransferResponseHeaders := hs\<rparr>"

definition WithResponseJSONInterceptor :: "('j \<Rightarrow> 'j) \<Rightarrow> 'j options \<Rightarrow> 'j options" where
  "WithResponseJSONInterceptor f opt = opt\<lparr>ResponseJSONInterceptor := Some f\<rparr>"

definition WithRequestJSONInterceptor :: "('j \<Rightarrow> 'j) \<Rightarrow> 'j options \<Rightarrow> 'j options" where
  "WithRequestJSONInterceptor f opt = opt\<lparr>RequestJSONInterceptor := Some f\<rparr>"

definition WithRequestFormInterceptor :: "(url_values \<Rightarrow> url_values) \<Rightarrow> 'j options \<Rightarrow> 'j options" where
  "WithRequestFormInterceptor g opt = opt\<lparr>RequestFormInterceptor := Some g\<rparr>"

definition WithMaxUploadSize :: "int \<Rightarrow> 'j options \<Rightarrow> 'j options" where
  "WithMaxUploadSize n opt = opt\<lparr>MaxUploadSize := n\<rparr>"

section \<open>Notions used in the statements\<close>

text \<open>
  The values that the header transfer puts under a canonical header name, and the
  events it logs: for each upstream entry whose name is on the allow-list, its values in
  order.
\<close>

definition transferred :: "header_entries \<Rightarrow> string list \<Rightarrow> string \<Rightarrow> string list" where
  "transferred hs allow k' =
     concat (map snd (filter (\<lambda>kv. fst kv \<in> set allow \<and> CanonicalMIMEHeaderKey (fst kv) = k') hs))"

definition transfer_events :: "header_entries \<Rightarrow> string list \<Rightarrow> sink_event list" where
  "transfer_events hs allow =
     concat (map (\<lambda>kv. if fst kv \<in> set allow then map (EvAdd (fst kv)) (snd kv) else []) hs)"

text \<open>
  The buffer that the JSON-intercept path writes, or the error that ends it: the body is
  decompressed when the upstream encoding is \<open>gzip\<close>, decoded, handed to the interceptor
  and encoded again.
\<close>

definition reencoded_json :: "'j env \<Rightarrow> ('j \<Rightarrow> 'j) \<Rightarrow> string \<Rightarrow> stream \<Rightarrow> error + bytes" where
  "reencoded_json env f resContentEncoding resBody =
     (case json_body_source env resContentEncoding resBody of
        Inl e \<Rightarrow> Inl e
      | Inr reader \<Rightarrow>
          (case json_Decode env reader of
             Inl e \<Rightarrow> Inl e
           | Inr m \<Rightarrow> json_Encode env (f m)))"

fun is_body_write :: "sink_event \<Rightarrow> bool" where
  "is_body_write (EvWrite _) = True"
| "is_body_write (EvCopy _) = True"
| "is_body_write _ = False"

fun is_status_write :: "sink_event \<Rightarrow> bool" where
  "is_status_write (EvWriteHeader _) = True"
| "is_status_write _ = False"

fun is_header_add :: "sink_event \<Rightarrow> bool" where
  "is_header_add (EvAdd _ _) = True"
| "is_header_add _ = False"

fun is_header_set :: "sink_event \<Rightarrow> bool" where
  "is_header_set (EvSet _ _) = True"
| "is_header_set _ = False"

text \<open>The body writes of the response phase, as the source's branches determine them.\<close>

definition body_events :: "'j env \<Rightarrow> 'j options \<Rightarrow> response \<Rightarrow> sink_event list" where
  "body_events env opt res =
     (case ResponseJSONInterceptor opt of
        None \<Rightarrow> [EvCopy (sdata (ResBody res))]
      | Some f \<Rightarrow>
          (case reencoded_json env f (header_Get (map_of (ResHeader res)) ''Content-Encoding'') (ResBody res) of
             Inl e \<Rightarrow> []
           | Inr buf \<Rightarrow> [EvWrite buf]))"

section \<open>Example inputs\<close>

text \<open>
  Concrete inputs for evaluating the definitions. In \<open>example_env\<close> a JSON value is
  its own text: decoding fails on an empty or failing stream, encoding appends the
  newline that \<open>json.Encoder\<close> writes, the stand-in for gzip strips a leading
  \<open>Z\<close>, and the media type is the text before the first semicolon. The other
  environments answer the query parser and the multipart reader for the inputs of the
  examples.
\<close>

definition example_env :: "bytes env" where
  "example_env =
     \<lparr>json_Decode = (\<lambda>s. if sdata s = [] \<or> serr s \<noteq> None then Inl ErrJSONDecode else Inr (sdata s)),
      json_Encode = (\<lambda>m. Inr (m @ [CHR 0x0A])),
      gzip_NewReader = (\<lambda>s. case sdata s of
                              [] \<Rightarrow> Inl ErrGzipHeader
                            | c # rest \<Rightarrow> if c = CHR ''Z'' then Inr (s\<lparr>sdata := rest\<rparr>) else Inl ErrGzipHeader),
      ParseMediaType = (\<lambda>v. (takeWhile (\<lambda>c. c \<noteq> CHR '';'') v, None)),
      ParseQuery = (\<lambda>q. ([], None)),
      multipartReader = (\<lambda>h b. Inl ErrNotMultipart),
      randomBoundary = ''b0undary''\<rparr>"

definition fresh_sink :: sink where
  "fresh_sink = \<lparr>headers = Map.empty, committed = None, events = [], body = [], wfail = None\<rparr>"

definition get_orders :: request where
  "get_orders =
     \<lparr>Method = ''GET'',
      URL = \<lparr>Path = ''/v1/orders'', RawQuery = ''status=open'', Fragment = []\<rparr>,
      Header = [], Body = \<lparr>sdata = [], serr = None\<rparr>, BodyClosed = False,
      PostForm = None, Form = None, MultipartForm = None\<rparr>"

definition answering :: "response \<Rightarrow> client" where
  "answering res = \<lparr>Timeout = 30, DoAPIRequest = (\<lambda>_. Inr res)\<rparr>"

definition gzip_json_response :: response where
  "gzip_json_response =
     \<lparr>StatusCode = 200,
      ResHeader = [(''Content-Encoding'', [''gzip'']), (''Content-Type'', [''text/plain'']),
                   (''X-Trace'', [''t1'', ''t2''])],
      ResBody = \<lparr>sdata = ''Z{}'', serr = None\<rparr>\<rparr>"

definition empty_body_response :: response where
  "empty_body_response =
     \<lparr>StatusCode = 200, ResHeader = [(''Content-Type'', [''application/json''])],
      ResBody = \<lparr>sdata = [], serr = None\<rparr>\<rparr>"

definition plain_response :: response where
  "plain_response =
     \<lparr>StatusCode = 200,
      ResHeader = [(''Content-Type'', [''text/plain'']), (''Content-Length'', [''5'']),
                   (''X-Trace'', [''t1'', ''t2'']), (''Set-Cookie'', [''a=1'', ''b=2''])],
      ResBody = \<lparr>sdata = ''hello'', serr = None\<rparr>\<rparr>"

definition gzip_page_response :: response where
  "gzip_page_response =
     \<lparr>StatusCode = 200,
      ResHeader = [(''Content-Type'', [''text/html'']), (''Content-Length'', [''4'']),
                   (''Content-Encoding'', [''gzip''])],
      ResBody = \<lparr>sdata = ''Zabc'', serr = None\<rparr>\<rparr>"

definition spaced_request :: request where
  "spaced_request =
     \<lparr>Method = ''GET'',
      URL = \<lparr>Path = ''/a b'', RawQuery = ''x=1'', Fragment = []\<rparr>,
      Header = [], Body = \<lparr>sdata = [], serr = None\<rparr>, BodyClosed = False,
      PostForm = None, Form = None, MultipartForm = None\<rparr>"


definition empty_post :: request where
  "empty_post =
     \<lparr>Method = ''POST'',
      URL = \<lparr>Path = ''/v1/orders'', RawQuery = [], Fragment = []\<rparr>,
      Header = [], Body = \<lparr>sdata = [], serr = None\<rparr>, BodyClosed = False,
      PostForm = None, Form = None, MultipartForm = None\<rparr>"

definition unreachable :: client where
  "unreachable = \<lparr>Timeout = 30, DoAPIRequest = (\<lambda>_. Inl ErrTransport)\<rparr>"

definition drop_b :: "url_values \<Rightarrow> url_values" where
  "drop_b form = filter (\<lambda>kv. fst kv \<noteq> ''b'') form"

definition form_env :: "bytes env" where
  "form_env =
     example_env
       \<lparr>ParseQuery :=
          (\<lambda>q. if q = ''b=x%26y&a=1&a=2+3''
                then ([(''b'', [''x&y'']), (''a'', [''1'', ''2 3''])], None)
                else if q = ''q=z'' then ([(''q'', [''z''])], None)
                else if q = [] then ([], None) else ([], Some ErrParseQuery))\<rparr>"

definition form_post :: request where
  "form_post =
     \<lparr>Method = ''POST'',
      URL = \<lparr>Path = ''/submit'', RawQuery = ''q=z'', Fragment = []\<rparr>,
      Header = [(''Content-Type'', [''application/x-www-form-urlencoded''])],
      Body = \<lparr>sdata = ''b=x%26y&a=1&a=2+3'', serr = None\<rparr>, BodyClosed = False,
      PostForm = None, Form = None, MultipartForm = None\<rparr>"

definition upload_post :: request where
  "upload_post =
     \<lparr>Method = ''POST'',
      URL = \<lparr>Path = ''/upload'', RawQuery = [], Fragment = []\<rparr>,
      Header = [(''Content-Type'', [''multipart/form-data; boundary=in''])],
      Body = \<lparr>sdata = ''--in (title: t) --in (f, a.txt: hello) --in--'', serr = None\<rparr>,
      BodyClosed = False, PostForm = None, Form = None, MultipartForm = None\<rparr>"

definition upload_env :: "bytes env" where
  "upload_env =
     example_env
       \<lparr>multipartReader :=
          (\<lambda>h b. Inr [ValuePart [(''Content-Disposition'', [''form-data; name=title''])]
                        ''title'' ''t'',
                      FileUpload
                        [(''Content-Disposition'', [''form-data; name=f; filename=a.txt'']),
                         (''Content-Type'', [''text/plain''])]
                        ''f''
                        \<lparr>Filename = ''a.txt'', fopen = None,
                         fcontent = \<lparr>sdata = ''hello'', serr = None\<rparr>\<rparr>])\<rparr>"

definition unreadable_upload_env :: "bytes env" where
  "unreadable_upload_env =
     example_env
       \<lparr>multipartReader :=
          (\<lambda>h b. Inr [FileUpload
                        [(''Content-Disposition'', [''form-data; name=f; filename=a.txt'']),
                         (''Content-Type'', [''text/plain''])]
                        ''f''
                        \<lparr>Filename = ''a.txt'', fopen = None,
                         fcontent = \<lparr>sdata = ''he'', serr = Some ErrRead\<rparr>\<rparr>])\<rparr>"

section \<open>Properties of the header transfer\<close>

lemma commit_simps [simp]:
  "headers (commit w) = headers w"
  "events (commit w) = events w"
  "body (commit w) = body w"
  "wfail (commit w) = wfail w"
  "committed (commit w) = Some (response_headers w)"
  by (simp_all add: commit_def response_headers_def split: option.splits)

lemma sink_Add_simps [simp]:
  "committed (sink_Add w k v) = committed w"
  "headers (sink_Add w k v) = header_Add (headers w) k v"
  "events (sink_Add w k v) = events w @ [EvAdd k v]"
  "body (sink_Add w k v) = body w"
  "wfail (sink_Add w k v) = wfail w"
  by (simp_all add: sink_Add_def)

lemma sink_Set_simps [simp]:
  "committed (sink_Set w k v) = committed w"
  "headers (sink_Set w k v) = header_Set (headers w) k v"
  "events (sink_Set w k v) = events w @ [EvSet k v]"
  "body (sink_Set w k v) = body w"
  "wfail (sink_Set w k v) = wfail w"
  by (simp_all add: sink_Set_def)

lemma sink_WriteHeader_simps [simp]:
  "committed (sink_WriteHeader w n) = Some (response_headers w)"
  "headers (sink_WriteHeader w n) = headers w"
  "events (sink_WriteHeader w n) = events w @ [EvWriteHeader n]"
  "body (sink_WriteHeader w n) = body w"
  "wfail (sink_WriteHeader w n) = wfail w"
  by (simp_all add: sink_WriteHeader_def)

lemma add_values_events: "events (add_values w k vv) = events w @ map (EvAdd k) vv"
  by (induction vv arbitrary: w) simp_all

lemma add_values_body: "body (add_values w k vv) = body w"
  by (induction vv arbitrary: w) simp_all

lemma add_values_wfail: "wfail (add_values w k vv) = wfail w"
  by (induction vv arbitrary: w) simp_all

lemma add_values_headers:
  "headers (add_values w k vv) k' =
     (if vv \<noteq> [] \<and> CanonicalMIMEHeaderKey k = k'
      then Some (values_of (headers w) k' @ vv) else headers w k')"
proof (induction vv arbitrary: w)
  case Nil
  then show ?case by simp
next
  case (Cons v vv)
  show ?case
    by (simp add: Cons.IH header_Add_def values_of_def Let_def)
qed

lemma match_allowed_eq:
  "match_allowed w k vv allow = (if k \<in> set allow then add_values w k vv else w)"
  by (induction allow) auto

lemma transfer_headers_events:
  "events (transfer_headers w hs allow) = events w @ transfer_events hs allow"
  by (induction hs arbitrary: w) (auto simp: transfer_events_def match_allowed_eq add_values_events)

lemma transfer_headers_body: "body (transfer_headers w hs allow) = body w"
  by (induction hs arbitrary: w) (auto simp: match_allowed_eq add_values_body)

lemma transfer_headers_wfail: "wfail (transfer_headers w hs allow) = wfail w"
  by (induction hs arbitrary: w) (auto simp: match_allowed_eq add_values_wfail)

lemma transfer_headers_headers:
  "headers (transfer_headers w hs allow) k' =
     (if transferred hs allow k' = [] then headers w k'
      else Some (values_of (headers w) k' @ transferred hs allow k'))"
proof (induction hs arbitrary: w)
  case Nil
  then show ?case by (simp add: transferred_def)
next
  case (Cons kv hs)
  obtain k vv where kv: "kv = (k, vv)" by (cases kv)
  show ?case
    unfolding kv transfer_headers.simps Cons.IH
    by (auto simp: match_allowed_eq add_values_headers transferred_def values_of_def)
qed

lemma concat_values_distinct:
  "distinct (map fst hs) \<Longrightarrow>
   concat (map snd (filter (\<lambda>kv. fst kv = k') hs)) = values_of (map_of hs) k'"
proof (induction hs)
  case Nil
  then show ?case by (simp add: values_of_def)
next
  case (Cons kv hs)
  have "fst kv \<notin> fst ` set hs"
    using Cons.prems by simp
  then have "fst kv = k' \<Longrightarrow> \<forall>x \<in> set hs. fst x \<noteq> k'"
    by blast
  then have "fst kv = k' \<Longrightarrow> filter (\<lambda>kv. fst kv = k') hs = []"
    by (simp add: filter_empty_conv)
  moreover have "fst kv = k' \<Longrightarrow> map_of (kv # hs) k' = Some (snd kv)"
    by (cases kv) simp
  moreover have "fst kv \<noteq> k' \<Longrightarrow> map_of (kv # hs) k' = map_of hs k'"
    by (cases kv) simp
  ultimately show ?case
    using Cons by (cases "fst kv = k'") (simp_all add: values_of_def)
qed

lemma transferred_canonical:
  assumes "distinct (map fst hs)" and "\<forall>k \<in> set (map fst hs). CanonicalMIMEHeaderKey k = k"
  shows "transferred hs allow k' = (if k' \<in> set allow then values_of (map_of hs) k' else [])"
proof -
  have "filter (\<lambda>kv. fst kv \<in> set allow \<and> CanonicalMIMEHeaderKey (fst kv) = k') hs
        = filter (\<lambda>kv. k' \<in> set allow \<and> fst kv = k') hs"
    using assms(2) by (intro filter_cong) auto
  also have "\<dots> = (if k' \<in> set allow then filter (\<lambda>kv. fst kv = k') hs else [])"
    by simp
  finally show ?thesis
    using concat_values_distinct [OF assms(1), of k'] by (simp add: transferred_def)
qed

section \<open>Properties of the response phase\<close>

lemmas header_defs =
  header_Add_def header_Set_def header_Get_def values_of_def CanonicalMIMEHeaderKey_def
  validHeaderFieldByte_def canonical_byte_def to_upper_def to_lower_def lowers_def uppers_def
  digits_def

lemmas sink_defs =
  sink_Add_def sink_Set_def sink_WriteHeader_def sink_Write_def io_Copy_def commit_def
  response_headers_def

lemmas render_defs =
  render_response_def render_json_def render_stream_def json_body_source_def

lemmas call_defs =
  ProxyAPI_def build_options_def reqParseFunc_def resolve_path_def resolve_method_def
  requestOptions_def NewAPIRequest_def ProxyRequestTypeRaw_def ProxyRequestTypeForm_def
  ProxyRequestTypeMultipartForm_def ProxyRequestTypeNone_def

lemma canon_Content_Type [simp]: "CanonicalMIMEHeaderKey ''Content-Type'' = ''Content-Type''"
  by (simp add: header_defs)

lemma canon_Content_Length [simp]: "CanonicalMIMEHeaderKey ''Content-Length'' = ''Content-Length''"
  by (simp add: header_defs)

lemma canon_Content_Encoding [simp]: "CanonicalMIMEHeaderKey ''Content-Encoding'' = ''Content-Encoding''"
  by (simp add: header_defs)

lemma ProxyAPI_response_phase:
  assumes "ProxyAPI env c method path httpReq writer requestType opts = out"
    and "out_sent out = [apiReq]"
    and "DoAPIRequest c apiReq = Inr res"
  shows "out_sink out = fst (render_response env (build_options c opts) res writer)"
    and "out_err out = snd (render_response env (build_options c opts) res writer)"
  using assms
  by (auto simp: ProxyAPI_def Let_def split: option.splits sum.splits)

lemma render_json_reencoded:
  "render_json env f ce b w =
     (case reencoded_json env f ce b of
        Inl e \<Rightarrow> (w, Some e)
      | Inr buf \<Rightarrow>
          sink_Write
            (sink_Set (sink_Set w ''Content-Type'' ''application/json; charset=utf-8'')
               ''Content-Length'' (Itoa (length buf)))
            buf)"
  by (simp add: render_json_def reencoded_json_def split: sum.splits)

lemma sink_Write_simps [simp]:
  "committed (fst (sink_Write w bs)) = Some (response_headers w)"
  "headers (fst (sink_Write w bs)) = headers w"
  "events (fst (sink_Write w bs)) = events w @ [EvWrite bs]"
  "body (fst (sink_Write w bs)) = body w @ (if wfail w = None then bs else [])"
  "snd (sink_Write w bs) = wfail w"
  by (simp_all add: sink_Write_def split: option.splits)

lemma io_Copy_simps [simp]:
  "headers (fst (io_Copy w src)) = headers w"
  "events (fst (io_Copy w src)) = events w @ [EvCopy (sdata src)]"
  "body (fst (io_Copy w src)) = body w @ (if wfail w = None then sdata src else [])"
  by (simp_all add: io_Copy_def Let_def split: option.splits)

lemma header_Set_apply:
  "header_Set h key v k' = (if CanonicalMIMEHeaderKey key = k' then Some [v] else h k')"
  by (simp add: header_Set_def)

lemma render_json_headers:
  "headers (fst (render_json env f ce b w)) k' =
     (case reencoded_json env f ce b of
        Inl e \<Rightarrow> headers w k'
      | Inr buf \<Rightarrow>
          if k' = ''Content-Length'' then Some [Itoa (length buf)]
          else if k' = ''Content-Type'' then Some [''application/json; charset=utf-8'']
          else headers w k')"
  by (auto simp: render_json_reencoded header_Set_apply split: sum.splits)

lemma render_json_events:
  "events (fst (render_json env f ce b w)) =
     events w @
     (case reencoded_json env f ce b of
        Inl e \<Rightarrow> []
      | Inr buf \<Rightarrow>
          [EvSet ''Content-Type'' ''application/json; charset=utf-8'',
           EvSet ''Content-Length'' (Itoa (length buf)), EvWrite buf])"
  by (simp add: render_json_reencoded split: sum.splits)

lemma render_json_body:
  "body (fst (render_json env f ce b w)) =
     body w @
     (case reencoded_json env f ce b of
        Inl e \<Rightarrow> []
      | Inr buf \<Rightarrow> if wfail w = None then buf else [])"
  by (simp add: render_json_reencoded split: sum.splits)

lemma render_json_err:
  "snd (render_json env f ce b w) =
     (case reencoded_json env f ce b of Inl e \<Rightarrow> Some e | Inr buf \<Rightarrow> wfail w)"
  by (simp add: render_json_reencoded split: sum.splits)

lemma render_stream_headers:
  "headers (fst (render_stream res ce w)) k' =
     (if k' = ''Content-Encoding'' \<and> ce \<noteq> [] then Some [ce]
      else if k' = ''Content-Length'' \<and> header_Get (map_of (ResHeader res)) ''Content-Length'' \<noteq> []
        then Some [header_Get (map_of (ResHeader res)) ''Content-Length'']
      else if k' = ''Content-Type'' then Some [header_Get (map_of (ResHeader res)) ''Content-Type'']
      else headers w k')"
  by (auto simp: render_stream_def Let_def header_Set_apply)

lemma render_stream_body:
  "body (fst (render_stream res ce w)) =
     body w @ (if wfail w = None then sdata (ResBody res) else [])"
  by (auto simp: render_stream_def Let_def)

lemma render_stream_events:
  "\<exists>sets. events (fst (render_stream res ce w)) = events w @ sets @ [EvCopy (sdata (ResBody res))]
      \<and> list_all is_header_set sets"
proof -
  let ?cl = "header_Get (map_of (ResHeader res)) ''Content-Length''"
  let ?sets = "[EvSet ''Content-Type'' (header_Get (map_of (ResHeader res)) ''Content-Type'')]
      @ (if ?cl \<noteq> [] then [EvSet ''Content-Length'' ?cl] else [])
      @ (if ce \<noteq> [] then [EvSet ''Content-Encoding'' ce] else [])"
  have "events (fst (render_stream res ce w)) = events w @ ?sets @ [EvCopy (sdata (ResBody res))]"
    by (simp add: render_stream_def Let_def)
  moreover have "list_all is_header_set ?sets"
    by simp
  ultimately show ?thesis
    by blast
qed

lemma render_response_headers:
  "headers (fst (render_response env opt res w)) k' =
     (case ResponseJSONInterceptor opt of
        Some f \<Rightarrow>
          headers (fst (render_json env f (header_Get (map_of (ResHeader res)) ''Content-Encoding'')
                     (ResBody res)
                     (sink_WriteHeader (transfer_headers w (ResHeader res) (TransferResponseHeaders opt))
                        (StatusCode res)))) k'
      | None \<Rightarrow>
          headers (fst (render_stream res (header_Get (map_of (ResHeader res)) ''Content-Encoding'')
                     (sink_WriteHeader (transfer_headers w (ResHeader res) (TransferResponseHeaders opt))
                        (StatusCode res)))) k')"
  by (simp add: render_response_def Let_def split: option.splits)

lemma render_response_events:
  "\<exists>sets. events (fst (render_response env opt res w)) =
       events w @ transfer_events (ResHeader res) (TransferResponseHeaders opt)
         @ [EvWriteHeader (StatusCode res)] @ sets @ body_events env opt res
     \<and> list_all is_header_set sets"
proof (cases "ResponseJSONInterceptor opt")
  case None
  obtain sets where
    "events (fst (render_stream res (header_Get (map_of (ResHeader res)) ''Content-Encoding'')
        (sink_WriteHeader (transfer_headers w (ResHeader res) (TransferResponseHeaders opt)) (StatusCode res)))) =
     events (sink_WriteHeader (transfer_headers w (ResHeader res) (TransferResponseHeaders opt)) (StatusCode res))
       @ sets @ [EvCopy (sdata (ResBody res))]"
    and "list_all is_header_set sets"
    using render_stream_events by blast
  then show ?thesis
    using None
    by (simp add: render_response_def Let_def body_events_def transfer_headers_events)
next
  case (Some f)
  show ?thesis
  proof (cases "reencoded_json env f (header_Get (map_of (ResHeader res)) ''Content-Encoding'') (ResBody res)")
    case (Inl e)
    then show ?thesis
      using Some
      by (simp add: render_response_def Let_def body_events_def render_json_events
          transfer_headers_events)
  next
    case (Inr buf)
    have "events (fst (render_response env opt res w)) =
       events w @ transfer_events (ResHeader res) (TransferResponseHeaders opt)
         @ [EvWriteHeader (StatusCode res)]
         @ [EvSet ''Content-Type'' ''application/json; charset=utf-8'',
            EvSet ''Content-Length'' (Itoa (length buf))]
         @ body_events env opt res"
      using Some Inr
      by (simp add: render_response_def Let_def body_events_def render_json_events
          transfer_headers_events)
    then show ?thesis
      by (intro exI [of _ "[EvSet ''Content-Type'' ''application/json; charset=utf-8'',
            EvSet ''Content-Length'' (Itoa (length buf))]"]) simp
  qed
qed

lemma render_response_body:
  "body (fst (render_response env opt res w)) =
     body w @
     (case ResponseJSONInterceptor opt of
        None \<Rightarrow> if wfail w = None then sdata (ResBody res) else []
      | Some f \<Rightarrow>
          (case reencoded_json env f (header_Get (map_of (ResHeader res)) ''Content-Encoding'') (ResBody res) of
             Inl e \<Rightarrow> []
           | Inr buf \<Rightarrow> if wfail w = None then buf else []))"
  by (simp add: render_response_def Let_def render_json_body render_stream_body
      transfer_headers_body transfer_headers_wfail split: option.splits sum.splits)

lemma reencoded_json_gzip:
  assumes "gzip_NewReader env b = Inr z" and "json_Decode env z = Inr m"
    and "json_Encode env (f m) = Inr buf"
  shows "reencoded_json env f ''gzip'' b = Inr buf"
  using assms by (simp add: reencoded_json_def json_body_source_def)

lemma transferred_not_allowed:
  assumes "\<forall>h \<in> set allow. CanonicalMIMEHeaderKey h \<noteq> k'"
  shows "transferred hs allow k' = []"
  using assms by (auto simp: transferred_def)

lemmas example_defs =
  example_env_def answering_def gzip_json_response_def empty_body_response_def
  plain_response_def gzip_page_response_def fresh_sink_def get_orders_def
  WithResponseJSONInterceptor_def
  WithTransferResponseHeaders_def

lemmas eval_defs =
  call_defs render_defs sink_defs header_Add_def header_Set_def header_Get_def values_of_def
  Let_def

lemma add_values_committed: "committed (add_values w k vv) = committed w"
  by (induction vv arbitrary: w) simp_all

lemma transfer_headers_committed: "committed (transfer_headers w hs allow) = committed w"
  by (induction hs arbitrary: w) (auto simp: match_allowed_eq add_values_committed)

lemma response_headers_committed: "committed w = Some h \<Longrightarrow> response_headers w = h"
  by (simp add: response_headers_def)

lemma response_headers_uncommitted: "committed w = None \<Longrightarrow> response_headers w = headers w"
  by (simp add: response_headers_def)

lemma io_Copy_committed:
  "committed w = Some h \<Longrightarrow> committed (fst (io_Copy w src)) = Some h"
  by (simp add: io_Copy_def Let_def commit_def split: option.splits)

lemma render_json_committed:
  "committed w = Some h \<Longrightarrow> committed (fst (render_json env f ce b w)) = Some h"
  by (simp add: render_json_reencoded response_headers_def split: sum.splits)

lemma render_stream_committed:
  "committed w = Some h \<Longrightarrow> committed (fst (render_stream res ce w)) = Some h"
  by (simp add: render_stream_def Let_def io_Copy_committed)

lemma render_response_committed:
  "committed (fst (render_response env opt res w)) =
     Some (response_headers (transfer_headers w (ResHeader res) (TransferResponseHeaders opt)))"
  by (simp add: render_response_def Let_def render_json_committed render_stream_committed
      split: option.splits)

lemma render_response_response_headers:
  "response_headers (fst (render_response env opt res w)) =
     response_headers (transfer_headers w (ResHeader res) (TransferResponseHeaders opt))"
  by (simp add: response_headers_committed [OF render_response_committed])

lemma render_response_err:
  "snd (render_response env opt res w) =
     (case ResponseJSONInterceptor opt of
        None \<Rightarrow>
          if sdata (ResBody res) = [] then serr (ResBody res)
          else (case wfail w of None \<Rightarrow> serr (ResBody res) | Some e \<Rightarrow> Some e)
      | Some f \<Rightarrow>
          (case reencoded_json env f (header_Get (map_of (ResHeader res)) ''Content-Encoding'') (ResBody res) of
             Inl e \<Rightarrow> Some e
           | Inr buf \<Rightarrow> wfail w))"
  by (simp add: render_response_def Let_def render_json_err render_stream_def io_Copy_def
      transfer_headers_wfail split: option.splits sum.splits)

lemma response_headers_transfer:
  assumes "committed w = None"
  shows "response_headers (transfer_headers w hs allow) k' =
           (if transferred hs allow k' = [] then headers w k'
            else Some (values_of (headers w) k' @ transferred hs allow k'))"
  using assms
  by (simp add: response_headers_uncommitted transfer_headers_committed transfer_headers_headers)

lemma transferred_outside_allow_list:
  assumes "\<forall>k \<in> set (map fst hs). CanonicalMIMEHeaderKey k = k" and "k' \<notin> set allow"
  shows "transferred hs allow k' = []"
  using assms by (auto simp: transferred_def)

section \<open>Claims about the response renderer\<close>

text \<open>
  C1 (the code at the failing input). The upstream answers a gzip-compressed JSON body
  with \<open>Content-Encoding: gzip\<close>; the call has a \<open>ResponseJSONInterceptor\<close> and
  \<open>Content-Encoding\<close> on its allow-list. The events show the order of the source: the
  transferred header, the status write, and only then the settings of \<open>Content-Type\<close>
  and \<open>Content-Length\<close>. So the response goes out without \<open>Content-Type\<close> and
  \<open>Content-Length\<close>, and with \<open>Content-Encoding: gzip\<close> in front of the re-encoded,
  uncompressed JSON.
\<close>

theorem json_intercept_response_headers:
  "events (out_sink (ProxyAPI example_env (answering gzip_json_response) [] [] get_orders
       fresh_sink ProxyRequestTypeNone
       [WithResponseJSONInterceptor id, WithTransferResponseHeaders [''Content-Encoding'']]))
     = [EvAdd ''Content-Encoding'' ''gzip'', EvWriteHeader 200,
        EvSet ''Content-Type'' ''application/json; charset=utf-8'',
        EvSet ''Content-Length'' ''3'', EvWrite (''{}'' @ [CHR 0x0A])]
   \<and> response_headers (out_sink (ProxyAPI example_env (answering gzip_json_response) [] []
         get_orders fresh_sink ProxyRequestTypeNone
         [WithResponseJSONInterceptor id, WithTransferResponseHeaders [''Content-Encoding'']]))
       ''Content-Type'' = None
   \<and> response_headers (out_sink (ProxyAPI example_env (answering gzip_json_response) [] []
         get_orders fresh_sink ProxyRequestTypeNone
         [WithResponseJSONInterceptor id, WithTransferResponseHeaders [''Content-Encoding'']]))
       ''Content-Length'' = None
   \<and> response_headers (out_sink (ProxyAPI example_env (answering gzip_json_response) [] []
         get_orders fresh_sink ProxyRequestTypeNone
         [WithResponseJSONInterceptor id, WithTransferResponseHeaders [''Content-Encoding'']]))
       ''Content-Encoding'' = Some [''gzip'']
   \<and> body (out_sink (ProxyAPI example_env (answering gzip_json_response) [] [] get_orders
         fresh_sink ProxyRequestTypeNone
         [WithResponseJSONInterceptor id, WithTransferResponseHeaders [''Content-Encoding'']]))
       = ''{}'' @ [CHR 0x0A]
   \<and> out_err (ProxyAPI example_env (answering gzip_json_response) [] [] get_orders
         fresh_sink ProxyRequestTypeNone
         [WithResponseJSONInterceptor id, WithTransferResponseHeaders [''Content-Encoding'']])
       = None"
  by (simp add: eval_defs example_defs Itoa.simps digit_char_def digits_def)

text \<open>
  C2. In a forwarding call that reaches the response phase with a sink that has sent
  nothing yet, every header of the outbound response is what the sink held before
  followed by the values the transfer copied: the values of every upstream entry whose
  name is equal to an allow-list entry, in order. For an upstream header map with
  distinct canonical names that is: all upstream values of the header if its name is on
  the allow-list, and nothing otherwise; and a header that is not on the allow-list and
  was not in the sink before is not in the outbound response. This holds for every
  header name on every path, \<open>Content-Type\<close>, \<open>Content-Length\<close> and
  \<open>Content-Encoding\<close> included.
\<close>

theorem transfer_exactly_allow_listed:
  assumes "ProxyAPI env c method path httpReq writer requestType opts = out"
    and "out_sent out = [apiReq]"
    and "DoAPIRequest c apiReq = Inr res"
    and "committed writer = None"
  shows "response_headers (out_sink out) k' =
           (if transferred (ResHeader res) (TransferResponseHeaders (build_options c opts)) k' = []
            then headers writer k'
            else Some (values_of (headers writer) k'
                       @ transferred (ResHeader res) (TransferResponseHeaders (build_options c opts)) k'))
       \<and> (distinct (map fst (ResHeader res))
            \<and> (\<forall>k \<in> set (map fst (ResHeader res)). CanonicalMIMEHeaderKey k = k)
          \<longrightarrow> transferred (ResHeader res) (TransferResponseHeaders (build_options c opts)) k' =
                (if k' \<in> set (TransferResponseHeaders (build_options c opts))
                 then values_of (map_of (ResHeader res)) k' else []))
       \<and> ((\<forall>k \<in> set (map fst (ResHeader res)). CanonicalMIMEHeaderKey k = k)
            \<and> k' \<notin> set (TransferResponseHeaders (build_options c opts))
            \<and> headers writer k' = None
          \<longrightarrow> response_headers (out_sink out) k' = None)"
proof -
  let ?allow = "TransferResponseHeaders (build_options c opts)"
  have sink: "out_sink out = fst (render_response env (build_options c opts) res writer)"
    using ProxyAPI_response_phase [OF assms(1-3)] by simp
  have a: "response_headers (out_sink out) k' =
           (if transferred (ResHeader res) ?allow k' = [] then headers writer k'
            else Some (values_of (headers writer) k' @ transferred (ResHeader res) ?allow k'))"
    unfolding sink render_response_response_headers
    by (rule response_headers_transfer [OF assms(4)])
  have b: "distinct (map fst (ResHeader res))
            \<and> (\<forall>k \<in> set (map fst (ResHeader res)). CanonicalMIMEHeaderKey k = k)
          \<longrightarrow> transferred (ResHeader res) ?allow k' =
                (if k' \<in> set ?allow then values_of (map_of (ResHeader res)) k' else [])"
    by (simp add: transferred_canonical)
  have c: "(\<forall>k \<in> set (map fst (ResHeader res)). CanonicalMIMEHeaderKey k = k)
            \<and> k' \<notin> set ?allow \<and> headers writer k' = None
          \<longrightarrow> response_headers (out_sink out) k' = None"
    using a transferred_outside_allow_list [of "ResHeader res" k' ?allow] by auto
  show ?thesis
    using a b c by blast
qed

text \<open>
  Witness for C2: of the upstream headers of \<open>plain_response\<close>, only the allow-listed
  \<open>Set-Cookie\<close> is in the outbound response, with both its values; \<open>X-Trace\<close> and
  \<open>Content-Type\<close> are not.
\<close>

theorem transfer_exactly_allow_listed_witness:
  "response_headers (out_sink (ProxyAPI example_env (answering plain_response) [] [] get_orders
       fresh_sink ProxyRequestTypeNone [WithTransferResponseHeaders [''Set-Cookie'']])) ''Set-Cookie''
     = Some [''a=1'', ''b=2'']
   \<and> response_headers (out_sink (ProxyAPI example_env (answering plain_response) [] [] get_orders
       fresh_sink ProxyRequestTypeNone [WithTransferResponseHeaders [''Set-Cookie'']])) ''X-Trace''
     = None
   \<and> response_headers (out_sink (ProxyAPI example_env (answering plain_response) [] [] get_orders
       fresh_sink ProxyRequestTypeNone [WithTransferResponseHeaders [''Set-Cookie'']])) ''Content-Type''
     = None"
proof -
  let ?opts = "[WithTransferResponseHeaders [''Set-Cookie'']] :: (bytes options \<Rightarrow> bytes options) list"
  let ?out = "ProxyAPI example_env (answering plain_response) [] [] get_orders fresh_sink
       ProxyRequestTypeNone ?opts"
  have h2: "out_sent ?out = [hd (out_sent ?out)]"
    by (simp add: eval_defs example_defs)
  have h3: "DoAPIRequest (answering plain_response) (hd (out_sent ?out)) = Inr plain_response"
    by (simp add: answering_def)
  have h4: "committed fresh_sink = None"
    by (simp add: fresh_sink_def)
  have allow: "TransferResponseHeaders (build_options (answering plain_response) ?opts) = [''Set-Cookie'']"
    by (simp add: build_options_def example_defs)
  have d: "distinct (map fst (ResHeader plain_response))"
    by (simp add: plain_response_def)
  have cn: "\<forall>k \<in> set (map fst (ResHeader plain_response)). CanonicalMIMEHeaderKey k = k"
    by (simp add: plain_response_def header_defs)
  have fr: "headers fresh_sink ''X-Trace'' = None" "headers fresh_sink ''Content-Type'' = None"
    by (simp_all add: fresh_sink_def)
  note T1 = transfer_exactly_allow_listed [OF refl h2 h3 h4, of "''Set-Cookie''"]
  note T2 = transfer_exactly_allow_listed [OF refl h2 h3 h4, of "''X-Trace''"]
  note T3 = transfer_exactly_allow_listed [OF refl h2 h3 h4, of "''Content-Type''"]
  have t1: "transferred (ResHeader plain_response) [''Set-Cookie''] ''Set-Cookie'' = [''a=1'', ''b=2'']"
    using T1 [THEN conjunct2, THEN conjunct1] d cn unfolding allow
    by (simp add: values_of_def plain_response_def)
  have a: "response_headers (out_sink ?out) ''Set-Cookie'' = Some [''a=1'', ''b=2'']"
    using T1 [THEN conjunct1] unfolding allow t1 by (simp add: values_of_def fresh_sink_def)
  have b: "response_headers (out_sink ?out) ''X-Trace'' = None"
    using T2 [THEN conjunct2, THEN conjunct2] cn fr(1) unfolding allow by simp
  have c: "response_headers (out_sink ?out) ''Content-Type'' = None"
    using T3 [THEN conjunct2, THEN conjunct2] cn fr(2) unfolding allow by simp
  show ?thesis
    using a b c by blast
qed

lemma transfer_events_only_add:
  "list_all is_header_add (transfer_events hs allow)"
  by (induction hs) (auto simp: transfer_events_def list_all_iff)

subsection \<open>Order of the sink events\<close>

lemma header_add_events:
  assumes "list_all is_header_add evs"
  shows "filter is_status_write evs = []" and "filter is_body_write evs = []"
proof -
  have "\<And>ev. is_header_add ev \<Longrightarrow> \<not> is_status_write ev \<and> \<not> is_body_write ev"
    by (case_tac ev) simp_all
  then show "filter is_status_write evs = []" and "filter is_body_write evs = []"
    using assms by (auto simp: list_all_iff filter_empty_conv)
qed

lemma header_set_events:
  assumes "list_all is_header_set evs"
  shows "filter is_status_write evs = []" and "filter is_body_write evs = []"
proof -
  have "\<And>ev. is_header_set ev \<Longrightarrow> \<not> is_status_write ev \<and> \<not> is_body_write ev"
    by (case_tac ev) simp_all
  then show "filter is_status_write evs = []" and "filter is_body_write evs = []"
    using assms by (auto simp: list_all_iff filter_empty_conv)
qed

lemma body_write_events:
  assumes "list_all is_body_write evs"
  shows "filter is_status_write evs = []" and "filter is_body_write evs = evs"
proof -
  have "\<And>ev. is_body_write ev \<Longrightarrow> \<not> is_status_write ev"
    by (case_tac ev) simp_all
  then show "filter is_status_write evs = []"
    using assms by (auto simp: list_all_iff filter_empty_conv)
  show "filter is_body_write evs = evs"
    using assms by (auto simp: list_all_iff filter_id_conv)
qed

lemma body_events_shape:
  "length (body_events env opt res) \<le> 1"
  "list_all is_body_write (body_events env opt res)"
  by (auto simp: body_events_def split: option.splits sum.splits)

text \<open>
  C3 (as amended). In a forwarding call that reaches the response phase, the events the
  call adds to the sink are, in this order: the header additions of the allow-list
  transfer, the one status write, header settings (the renderer's own \<open>Content-Type\<close>,
  \<open>Content-Length\<close> and \<open>Content-Encoding\<close>), and the body events. There is at
  most one body event (\<open>body_events\<close>): the stream copy when no JSON interceptor is
  set, the write of the re-encoded buffer when the interceptor is set and decompression,
  decoding and re-encoding succeed, and none when one of these fails; in that case the
  call returns the error of the failed step. So the call writes the status exactly once,
  and its body writes are exactly these.
\<close>

theorem response_write_order:
  assumes "ProxyAPI env c method path httpReq writer requestType opts = out"
    and "out_sent out = [apiReq]"
    and "DoAPIRequest c apiReq = Inr res"
  shows "\<exists>sets.
           events (out_sink out) =
             events writer
             @ transfer_events (ResHeader res) (TransferResponseHeaders (build_options c opts))
             @ [EvWriteHeader (StatusCode res)] @ sets
             @ body_events env (build_options c opts) res
         \<and> list_all is_header_add
               (transfer_events (ResHeader res) (TransferResponseHeaders (build_options c opts)))
         \<and> list_all is_header_set sets
         \<and> list_all is_body_write (body_events env (build_options c opts) res)
         \<and> length (body_events env (build_options c opts) res) \<le> 1
         \<and> filter is_status_write (drop (length (events writer)) (events (out_sink out)))
             = [EvWriteHeader (StatusCode res)]
         \<and> filter is_body_write (drop (length (events writer)) (events (out_sink out)))
             = body_events env (build_options c opts) res
         \<and> (ResponseJSONInterceptor (build_options c opts) = None \<longrightarrow>
               body_events env (build_options c opts) res = [EvCopy (sdata (ResBody res))])
         \<and> (\<forall>f buf. ResponseJSONInterceptor (build_options c opts) = Some f
               \<and> reencoded_json env f (header_Get (map_of (ResHeader res)) ''Content-Encoding'')
                    (ResBody res) = Inr buf \<longrightarrow>
               body_events env (build_options c opts) res = [EvWrite buf]
               \<and> out_err out = wfail writer)
         \<and> (\<forall>f e. ResponseJSONInterceptor (build_options c opts) = Some f
               \<and> reencoded_json env f (header_Get (map_of (ResHeader res)) ''Content-Encoding'')
                    (ResBody res) = Inl e \<longrightarrow>
               body_events env (build_options c opts) res = [] \<and> out_err out = Some e)"
proof -
  let ?adds = "transfer_events (ResHeader res) (TransferResponseHeaders (build_options c opts))"
  let ?body = "body_events env (build_options c opts) res"
  have sink: "out_sink out = fst (render_response env (build_options c opts) res writer)"
    and err: "out_err out = snd (render_response env (build_options c opts) res writer)"
    using ProxyAPI_response_phase [OF assms] by simp_all
  obtain sets where ev:
    "events (out_sink out) =
       events writer @ ?adds @ [EvWriteHeader (StatusCode res)] @ sets @ ?body"
    and sets: "list_all is_header_set sets"
    unfolding sink using render_response_events by blast
  have adds: "list_all is_header_add ?adds"
    by (rule transfer_events_only_add)
  have body: "list_all is_body_write ?body" and len: "length ?body \<le> 1"
    by (rule body_events_shape)+
  have st: "filter is_status_write (drop (length (events writer)) (events (out_sink out)))
      = [EvWriteHeader (StatusCode res)]"
    unfolding ev
    by (simp add: header_add_events [OF adds] header_set_events [OF sets]
        body_write_events [OF body])
  have bw: "filter is_body_write (drop (length (events writer)) (events (out_sink out))) = ?body"
    unfolding ev
    by (simp add: header_add_events [OF adds] header_set_events [OF sets]
        body_write_events [OF body])
  have none: "ResponseJSONInterceptor (build_options c opts) = None \<longrightarrow>
      ?body = [EvCopy (sdata (ResBody res))]"
    by (simp add: body_events_def)
  have ok: "\<forall>f buf. ResponseJSONInterceptor (build_options c opts) = Some f
               \<and> reencoded_json env f (header_Get (map_of (ResHeader res)) ''Content-Encoding'')
                    (ResBody res) = Inr buf \<longrightarrow>
               ?body = [EvWrite buf] \<and> out_err out = wfail writer"
    by (simp add: body_events_def err render_response_err)
  have fail: "\<forall>f e. ResponseJSONInterceptor (build_options c opts) = Some f
               \<and> reencoded_json env f (header_Get (map_of (ResHeader res)) ''Content-Encoding'')
                    (ResBody res) = Inl e \<longrightarrow>
               ?body = [] \<and> out_err out = Some e"
    by (simp add: body_events_def err render_response_err)
  show ?thesis
    by (rule exI [of _ sets])
       (insert ev adds sets body len st bw none ok fail, (intro conjI; assumption))
qed

text \<open>
  Witness for C3: a passthrough call adds the transferred header, the status, two header
  settings and the one stream copy, in this order.
\<close>

theorem response_write_order_witness:
  "events (out_sink (ProxyAPI example_env (answering plain_response) [] [] get_orders fresh_sink
       ProxyRequestTypeNone [WithTransferResponseHeaders [''X-Trace'']]))
     = [EvAdd ''X-Trace'' ''t1'', EvAdd ''X-Trace'' ''t2'', EvWriteHeader 200,
        EvSet ''Content-Type'' ''text/plain'', EvSet ''Content-Length'' ''5'', EvCopy ''hello'']
   \<and> body_events example_env
         (build_options (answering plain_response) [WithTransferResponseHeaders [''X-Trace'']])
         plain_response = [EvCopy ''hello'']"
proof -
  let ?opts = "[WithTransferResponseHeaders [''X-Trace'']] :: (bytes options \<Rightarrow> bytes options) list"
  let ?out = "ProxyAPI example_env (answering plain_response) [] [] get_orders fresh_sink
       ProxyRequestTypeNone ?opts"
  have h2: "out_sent ?out = [hd (out_sent ?out)]"
    by (simp add: eval_defs example_defs)
  have h3: "DoAPIRequest (answering plain_response) (hd (out_sent ?out)) = Inr plain_response"
    by (simp add: answering_def)
  have be: "body_events example_env (build_options (answering plain_response) ?opts) plain_response
      = [EvCopy ''hello'']"
    by (simp add: body_events_def build_options_def example_defs)
  have te: "transfer_events (ResHeader plain_response)
      (TransferResponseHeaders (build_options (answering plain_response) ?opts))
      = [EvAdd ''X-Trace'' ''t1'', EvAdd ''X-Trace'' ''t2'']"
    by (simp add: transfer_events_def build_options_def example_defs)
  have ev: "events (out_sink ?out) =
      [EvAdd ''X-Trace'' ''t1'', EvAdd ''X-Trace'' ''t2'', EvWriteHeader 200,
       EvSet ''Content-Type'' ''text/plain'', EvSet ''Content-Length'' ''5'', EvCopy ''hello'']"
    by (simp add: eval_defs example_defs)
  obtain sets where
    "events (out_sink ?out) = events fresh_sink
       @ transfer_events (ResHeader plain_response)
           (TransferResponseHeaders (build_options (answering plain_response) ?opts))
       @ [EvWriteHeader (StatusCode plain_response)] @ sets
       @ body_events example_env (build_options (answering plain_response) ?opts) plain_response"
    using response_write_order [OF refl h2 h3] by blast
  then show ?thesis
    using ev be by simp
qed

text \<open>
  Counterexample to C3 as stated: with an interceptor set and an empty upstream body
  (no JSON value to decode), the status is written and the call returns the decoding
  error without any body write.
\<close>

theorem undecodable_body_writes_status_only:
  "events (out_sink (ProxyAPI example_env (answering empty_body_response) [] [] get_orders
       fresh_sink ProxyRequestTypeNone [WithResponseJSONInterceptor id]))
     = [EvWriteHeader 200]
   \<and> out_err (ProxyAPI example_env (answering empty_body_response) [] [] get_orders
       fresh_sink ProxyRequestTypeNone [WithResponseJSONInterceptor id])
     = Some ErrJSONDecode"
  by (simp add: eval_defs example_defs)

text \<open>
  C4 (the code at the failing input). The upstream answers a gzip-compressed page with
  \<open>Content-Type\<close>, \<open>Content-Length\<close> and \<open>Content-Encoding\<close>; the call has no JSON
  interceptor. The renderer puts the three upstream values into the header map and
  copies the body unchanged, but it does so after the status write, so the outbound
  response carries none of the three headers.
\<close>

theorem passthrough_response_headers:
  "events (out_sink (ProxyAPI example_env (answering gzip_page_response) [] [] get_orders
       fresh_sink ProxyRequestTypeNone []))
     = [EvWriteHeader 200, EvSet ''Content-Type'' ''text/html'', EvSet ''Content-Length'' ''4'',
        EvSet ''Content-Encoding'' ''gzip'', EvCopy ''Zabc'']
   \<and> headers (out_sink (ProxyAPI example_env (answering gzip_page_response) [] [] get_orders
         fresh_sink ProxyRequestTypeNone [])) ''Content-Type'' = Some [''text/html'']
   \<and> response_headers (out_sink (ProxyAPI example_env (answering gzip_page_response) [] []
         get_orders fresh_sink ProxyRequestTypeNone [])) ''Content-Type'' = None
   \<and> response_headers (out_sink (ProxyAPI example_env (answering gzip_page_response) [] []
         get_orders fresh_sink ProxyRequestTypeNone [])) ''Content-Length'' = None
   \<and> response_headers (out_sink (ProxyAPI example_env (answering gzip_page_response) [] []
         get_orders fresh_sink ProxyRequestTypeNone [])) ''Content-Encoding'' = None
   \<and> body (out_sink (ProxyAPI example_env (answering gzip_page_response) [] [] get_orders
         fresh_sink ProxyRequestTypeNone [])) = ''Zabc''"
  by (simp add: eval_defs example_defs)

section \<open>Properties of the outbound request\<close>

lemmas url_defs =
  url_String_def EscapedPath_def EscapedFragment_def escape_def escape_byte_def shouldEscape_def
  upperhex_def lowers_def uppers_def digits_def

lemma escape_unchanged:
  "list_all (\<lambda>c. \<not> shouldEscape c mode) s \<Longrightarrow> escape s mode = s"
  by (induction s) (simp_all add: escape_def escape_byte_def)

lemma resolve_path_URL:
  "resolve_path [] httpReq = url_String (URL httpReq)"
  by (simp add: resolve_path_def url_String_def EscapedPath_def EscapedFragment_def)

lemma ProxyAPI_sent_request:
  assumes "ProxyAPI env c method path httpReq writer requestType opts = out"
    and "out_sent out = [apiReq]"
  shows "apiPath apiReq = resolve_path path httpReq"
    and "apiMethod apiReq = resolve_method method httpReq"
    and "enc_err (reqParseFunc requestType env httpReq (build_options c opts)) = None"
    and "apiBody apiReq = enc_body (reqParseFunc requestType env httpReq (build_options c opts))"
  using assms
  by (auto simp: ProxyAPI_def Let_def NewAPIRequest_def split: option.splits sum.splits)

section \<open>Claims about the orchestrator\<close>

text \<open>
  C5 (as amended). The request that a forwarding call sends carries the caller's path
  when that is not empty, and otherwise the string form of the inbound URL: the
  percent-escaped path (preceded by \<open>./\<close> when its first segment holds a colon), then
  \<open>?\<close> and the raw query when the query is not empty, then \<open>#\<close> and the
  percent-escaped fragment when the fragment is not empty. When neither path nor fragment
  holds a byte that must be escaped (and no colon in the first segment) this is the
  plain concatenation of path, query and fragment. An empty method argument is replaced
  by the inbound request's method.
\<close>

theorem outbound_path_and_method:
  assumes "ProxyAPI env c method path httpReq writer requestType opts = out"
    and "out_sent out = [apiReq]"
  shows "apiPath apiReq =
           (if path = [] then
              (if CHR '':'' \<in> set (takeWhile (\<lambda>c. c \<noteq> CHR ''/'') (EscapedPath (URL httpReq)))
               then ''./'' else [])
              @ EscapedPath (URL httpReq)
              @ (if RawQuery (URL httpReq) \<noteq> [] then ''?'' @ RawQuery (URL httpReq) else [])
              @ (if Fragment (URL httpReq) \<noteq> [] then ''#'' @ EscapedFragment (URL httpReq) else [])
            else path)
       \<and> apiMethod apiReq = (if method = [] then Method httpReq else method)
       \<and> (path = []
            \<and> list_all (\<lambda>c. \<not> shouldEscape c encodePath) (Path (URL httpReq))
            \<and> list_all (\<lambda>c. \<not> shouldEscape c encodeFragment) (Fragment (URL httpReq))
            \<and> CHR '':'' \<notin> set (takeWhile (\<lambda>c. c \<noteq> CHR ''/'') (Path (URL httpReq)))
          \<longrightarrow> apiPath apiReq =
                Path (URL httpReq)
                @ (if RawQuery (URL httpReq) \<noteq> [] then ''?'' @ RawQuery (URL httpReq) else [])
                @ (if Fragment (URL httpReq) \<noteq> [] then ''#'' @ Fragment (URL httpReq) else []))"
proof -
  have p: "apiPath apiReq = resolve_path path httpReq"
    and m: "apiMethod apiReq = resolve_method method httpReq"
    using ProxyAPI_sent_request [OF assms] by simp_all
  have a: "apiPath apiReq =
           (if path = [] then
              (if CHR '':'' \<in> set (takeWhile (\<lambda>c. c \<noteq> CHR ''/'') (EscapedPath (URL httpReq)))
               then ''./'' else [])
              @ EscapedPath (URL httpReq)
              @ (if RawQuery (URL httpReq) \<noteq> [] then ''?'' @ RawQuery (URL httpReq) else [])
              @ (if Fragment (URL httpReq) \<noteq> [] then ''#'' @ EscapedFragment (URL httpReq) else [])
            else path)"
    unfolding p
    by (cases "path = []") (simp_all add: resolve_path_URL url_String_def Let_def, simp add: resolve_path_def)
  have b: "apiMethod apiReq = (if method = [] then Method httpReq else method)"
    unfolding m by (simp add: resolve_method_def)
  have c: "path = []
            \<and> list_all (\<lambda>c. \<not> shouldEscape c encodePath) (Path (URL httpReq))
            \<and> list_all (\<lambda>c. \<not> shouldEscape c encodeFragment) (Fragment (URL httpReq))
            \<and> CHR '':'' \<notin> set (takeWhile (\<lambda>c. c \<noteq> CHR ''/'') (Path (URL httpReq)))
          \<longrightarrow> apiPath apiReq =
                Path (URL httpReq)
                @ (if RawQuery (URL httpReq) \<noteq> [] then ''?'' @ RawQuery (URL httpReq) else [])
                @ (if Fragment (URL httpReq) \<noteq> [] then ''#'' @ Fragment (URL httpReq) else [])"
  proof (intro impI, elim conjE)
    assume e: "path = []"
      and ep: "list_all (\<lambda>c. \<not> shouldEscape c encodePath) (Path (URL httpReq))"
      and ef: "list_all (\<lambda>c. \<not> shouldEscape c encodeFragment) (Fragment (URL httpReq))"
      and nc: "CHR '':'' \<notin> set (takeWhile (\<lambda>c. c \<noteq> CHR ''/'') (Path (URL httpReq)))"
    have star: "\<not> list_all (\<lambda>c. \<not> shouldEscape c encodePath) ''*''"
      by (simp add: shouldEscape_def lowers_def uppers_def digits_def)
    have ne: "Path (URL httpReq) \<noteq> ''*''"
      using ep star by auto
    have "EscapedPath (URL httpReq) = Path (URL httpReq)"
      using ne by (simp add: EscapedPath_def escape_unchanged [OF ep])
    moreover have "EscapedFragment (URL httpReq) = Fragment (URL httpReq)"
      by (simp add: EscapedFragment_def escape_unchanged [OF ef])
    ultimately show "apiPath apiReq =
                Path (URL httpReq)
                @ (if RawQuery (URL httpReq) \<noteq> [] then ''?'' @ RawQuery (URL httpReq) else [])
                @ (if Fragment (URL httpReq) \<noteq> [] then ''#'' @ Fragment (URL httpReq) else [])"
      using a e nc by simp
  qed
  show ?thesis
    using a b c by blast
qed

text \<open>
  Witness for C5: \<open>GET /v1/orders?status=open\<close> forwarded with empty method and path.
\<close>

theorem outbound_path_and_method_witness:
  "map apiPath (out_sent (ProxyAPI example_env (answering plain_response) [] [] get_orders fresh_sink
       ProxyRequestTypeNone [])) = [''/v1/orders?status=open'']
   \<and> map apiMethod (out_sent (ProxyAPI example_env (answering plain_response) [] [] get_orders fresh_sink
       ProxyRequestTypeNone [])) = [''GET'']"
proof -
  let ?opts = "[] :: (bytes options \<Rightarrow> bytes options) list"
  let ?out = "ProxyAPI example_env (answering plain_response) [] [] get_orders fresh_sink
       ProxyRequestTypeNone ?opts"
  have h2: "out_sent ?out = [hd (out_sent ?out)]"
    by (simp add: eval_defs example_defs)
  have e1: "list_all (\<lambda>c. \<not> shouldEscape c encodePath) (Path (URL get_orders))"
    by (simp add: get_orders_def shouldEscape_def lowers_def uppers_def digits_def)
  have e2: "list_all (\<lambda>c. \<not> shouldEscape c encodeFragment) (Fragment (URL get_orders))"
    by (simp add: get_orders_def)
  have e3: "CHR '':'' \<notin> set (takeWhile (\<lambda>c. c \<noteq> CHR ''/'') (Path (URL get_orders)))"
    by (simp add: get_orders_def)
  note T = outbound_path_and_method [OF refl h2]
  have "apiPath (hd (out_sent ?out)) =
      Path (URL get_orders)
      @ (if RawQuery (URL get_orders) \<noteq> [] then ''?'' @ RawQuery (URL get_orders) else [])
      @ (if Fragment (URL get_orders) \<noteq> [] then ''#'' @ Fragment (URL get_orders) else [])"
    using T [THEN conjunct2, THEN conjunct2] e1 e2 e3 by blast
  then have p: "apiPath (hd (out_sent ?out)) = ''/v1/orders?status=open''"
    by (simp add: get_orders_def)
  have m: "apiMethod (hd (out_sent ?out)) = ''GET''"
    using T [THEN conjunct2, THEN conjunct1] by (simp add: get_orders_def)
  have "map apiPath (out_sent ?out) = [apiPath (hd (out_sent ?out))]"
    "map apiMethod (out_sent ?out) = [apiMethod (hd (out_sent ?out))]"
    using h2 by (metis list.simps(8,9))+
  then show ?thesis
    using p m by simp
qed

text \<open>
  Counterexample to C5 as stated: for the inbound path \<open>/a b\<close> with query \<open>x=1\<close> the
  outbound path is \<open>/a%20b?x=1\<close>, not the concatenation \<open>/a b?x=1\<close>.
\<close>

theorem outbound_path_is_escaped:
  "map apiPath (out_sent (ProxyAPI example_env (answering plain_response) [] [] spaced_request
       fresh_sink ProxyRequestTypeNone [])) = [''/a%20b?x=1'']
   \<and> Path (URL spaced_request) @ ''?'' @ RawQuery (URL spaced_request) = ''/a b?x=1''"
  by (simp add: eval_defs example_defs spaced_request_def url_defs)

section \<open>Claims about the encoders\<close>



text \<open>
  C9. When the selected encoder returns an error, the call returns that error, hands
  no request to the collaborator and leaves the sink untouched. When the collaborator's
  send fails, the call returns the collaborator's error itself and leaves the sink
  untouched. No call hands more than one request to the collaborator, and a call whose
  encoder succeeds hands it exactly one.
\<close>

theorem encoder_and_send_errors:
  assumes "ProxyAPI env c method path httpReq writer requestType opts = out"
  shows "(\<forall>e. enc_err (reqParseFunc requestType env httpReq (build_options c opts)) = Some e \<longrightarrow>
            out_err out = Some e \<and> out_sent out = [] \<and> out_sink out = writer)
       \<and> (\<forall>apiReq e. out_sent out = [apiReq] \<and> DoAPIRequest c apiReq = Inl e \<longrightarrow>
            out_err out = Some e \<and> out_sink out = writer)
       \<and> length (out_sent out) \<le> 1
       \<and> (enc_err (reqParseFunc requestType env httpReq (build_options c opts)) = None \<longrightarrow>
            length (out_sent out) = 1)"
  using assms
  by (auto simp: ProxyAPI_def Let_def split: option.splits sum.splits)

text \<open>
  Witness for C9: a Raw call whose body is not JSON fails in the encoder; a call to an
  unreachable upstream returns the transport error.
\<close>

theorem encoder_and_send_errors_witness:
  "out_err (ProxyAPI example_env (answering plain_response) [] [] empty_post fresh_sink
       ProxyRequestTypeRaw [WithRequestJSONInterceptor id]) = Some ErrJSONDecode
   \<and> out_sent (ProxyAPI example_env (answering plain_response) [] [] empty_post fresh_sink
       ProxyRequestTypeRaw [WithRequestJSONInterceptor id]) = []
   \<and> out_sink (ProxyAPI example_env (answering plain_response) [] [] empty_post fresh_sink
       ProxyRequestTypeRaw [WithRequestJSONInterceptor id]) = fresh_sink
   \<and> out_err (ProxyAPI example_env unreachable [] [] get_orders fresh_sink
       ProxyRequestTypeNone []) = Some ErrTransport
   \<and> out_sink (ProxyAPI example_env unreachable [] [] get_orders fresh_sink
       ProxyRequestTypeNone []) = fresh_sink"
proof -
  let ?opts1 = "[WithRequestJSONInterceptor id] :: (bytes options \<Rightarrow> bytes options) list"
  let ?opts2 = "[] :: (bytes options \<Rightarrow> bytes options) list"
  let ?out1 = "ProxyAPI example_env (answering plain_response) [] [] empty_post fresh_sink
       ProxyRequestTypeRaw ?opts1"
  let ?out2 = "ProxyAPI example_env unreachable [] [] get_orders fresh_sink ProxyRequestTypeNone ?opts2"
  have e1: "enc_err (reqParseFunc ProxyRequestTypeRaw example_env empty_post
      (build_options (answering plain_response) ?opts1)) = Some ErrJSONDecode"
    by (simp add: reqParseFunc_def parseRawRequest_def build_options_def WithRequestJSONInterceptor_def
        example_env_def empty_post_def enc_fail_def)
  have s2: "out_sent ?out2 = [hd (out_sent ?out2)]"
    by (simp add: eval_defs example_defs unreachable_def)
  have f2: "DoAPIRequest unreachable (hd (out_sent ?out2)) = Inl ErrTransport"
    by (simp add: unreachable_def)
  note T1 = encoder_and_send_errors [of example_env "answering plain_response" "[]" "[]"
      empty_post fresh_sink ProxyRequestTypeRaw ?opts1 ?out1, OF refl, THEN conjunct1, rule_format, OF e1]
  note T2 = encoder_and_send_errors [of example_env unreachable "[]" "[]"
      get_orders fresh_sink ProxyRequestTypeNone ?opts2 ?out2, OF refl, THEN conjunct2, THEN conjunct1,
      rule_format, OF conjI [OF s2 f2]]
  show ?thesis
    using T1 T2 by blast
qed

subsection \<open>The Form encoder\<close>

lemma values_Add_new:
  "k \<notin> fst ` set m \<Longrightarrow> values_Add m k v = m @ [(k, [v])]"
  by (induction m) auto

lemma values_Add_last:
  "k \<notin> fst ` set m \<Longrightarrow> values_Add (m @ [(k, vs)]) k v = m @ [(k, vs @ [v])]"
  by (induction m) auto

lemma fold_values_Add_last:
  "k \<notin> fst ` set m \<Longrightarrow>
   fold (\<lambda>v form. values_Add form k v) vv (m @ [(k, vs)]) = m @ [(k, vs @ vv)]"
  by (induction vv arbitrary: vs) (simp_all add: values_Add_last)

lemma fold_values_Add_key:
  assumes "k \<notin> fst ` set m"
  shows "fold (\<lambda>v form. values_Add form k v) vv m = (if vv = [] then m else m @ [(k, vv)])"
proof (cases vv)
  case Nil
  then show ?thesis by simp
next
  case (Cons v vs)
  then show ?thesis
    using assms fold_values_Add_last [OF assms, of vs "[v]"] by (simp add: values_Add_new)
qed

lemma rebuild_from:
  assumes "distinct (map fst pf)" and "fst ` set acc \<inter> fst ` set pf = {}"
  shows "fold (\<lambda>kv form. fold (\<lambda>v form. values_Add form (fst kv) v) (snd kv) form) pf acc
           = acc @ filter (\<lambda>kv. snd kv \<noteq> []) pf"
  using assms
proof (induction pf arbitrary: acc)
  case Nil
  then show ?case by simp
next
  case (Cons kv pf)
  obtain k vv where kv: "kv = (k, vv)" by (cases kv)
  have notin: "k \<notin> fst ` set acc"
    using Cons.prems(2) kv by auto
  let ?acc' = "if vv = [] then acc else acc @ [(k, vv)]"
  have step: "fold (\<lambda>v form. values_Add form k v) vv acc = ?acc'"
    by (rule fold_values_Add_key [OF notin])
  have d: "distinct (map fst pf)"
    using Cons.prems(1) by simp
  have "k \<notin> fst ` set pf"
    using Cons.prems(1) kv by simp
  then have disj: "fst ` set ?acc' \<inter> fst ` set pf = {}"
    using Cons.prems(2) by auto
  show ?case
    using Cons.IH [OF d disj] by (simp add: kv step)
qed

lemma rebuild_form_distinct:
  "distinct (map fst pf) \<Longrightarrow> rebuild_form pf = filter (\<lambda>kv. snd kv \<noteq> []) pf"
  using rebuild_from [of pf "[]"] by (simp add: rebuild_form_def)

lemma values_of_key_nonempty:
  "distinct (map fst pf) \<Longrightarrow>
   values_of_key (filter (\<lambda>kv. snd kv \<noteq> []) pf) k = values_of_key pf k"
proof (induction pf)
  case Nil
  then show ?case by simp
next
  case (Cons kv pf)
  have "fst kv \<notin> fst ` set (filter (\<lambda>kv. snd kv \<noteq> []) pf)"
    using Cons.prems by auto
  then have "map_of (filter (\<lambda>kv. snd kv \<noteq> []) pf) (fst kv) = None"
    by (simp add: map_of_eq_None_iff)
  then show ?case
    using Cons by (cases kv) (auto simp: values_of_key_def)
qed

lemma parsed_PostForm_URL:
  "parsed_PostForm env (req\<lparr>URL := u\<rparr>) = parsed_PostForm env req"
  by (simp add: parsed_PostForm_def split: option.splits)

lemma parseFormRequest_ok:
  assumes "snd (ParseForm env req) = None"
  shows "enc_err (parseFormRequest env req opt) = None"
    and "enc_body (parseFormRequest env req opt) =
           StringsReader (values_Encode
             (case RequestFormInterceptor opt of
                Some g \<Rightarrow> g (rebuild_form (fst (parsed_PostForm env req)))
              | None \<Rightarrow> rebuild_form (fst (parsed_PostForm env req))))"
    and "PostForm (fst (ParseForm env req)) = Some (fst (parsed_PostForm env req))"
proof -
  obtain req' where p: "ParseForm env req = (req', None)"
    using assms by (cases "ParseForm env req") auto
  have pf: "PostForm req' = Some (fst (parsed_PostForm env req))"
    using p by (auto simp: ParseForm_def Let_def split: option.splits)
  show "enc_err (parseFormRequest env req opt) = None"
    by (simp add: parseFormRequest_def p Let_def)
  show "enc_body (parseFormRequest env req opt) =
           StringsReader (values_Encode
             (case RequestFormInterceptor opt of
                Some g \<Rightarrow> g (rebuild_form (fst (parsed_PostForm env req)))
              | None \<Rightarrow> rebuild_form (fst (parsed_PostForm env req))))"
    by (simp add: parseFormRequest_def p Let_def pf)
  show "PostForm (fst (ParseForm env req)) = Some (fst (parsed_PostForm env req))"
    by (simp add: p pf)
qed

lemma parseFormRequest_parse:
  "enc_err (parseFormRequest env req opt) = snd (ParseForm env req)"
  "enc_req (parseFormRequest env req opt) = fst (ParseForm env req)"
  by (cases "ParseForm env req"; cases "snd (ParseForm env req)";
      simp add: parseFormRequest_def Let_def enc_fail_def)+

lemma ProxyAPI_out_req:
  assumes "ProxyAPI env c method path httpReq writer requestType opts = out"
  shows "out_req out = enc_req (reqParseFunc requestType env httpReq (build_options c opts))"
  using assms
  by (auto simp: ProxyAPI_def Let_def split: option.splits sum.splits)

lemma map_single: "xs = [hd xs] \<Longrightarrow> map f xs = [f (hd xs)]"
  by (cases xs) auto

lemma reqParseFunc_Form:
  "reqParseFunc ProxyRequestTypeForm = parseFormRequest"
  by (simp add: reqParseFunc_def ProxyRequestTypeForm_def ProxyRequestTypeRaw_def)

text \<open>
  C10. A call of \<open>ProxyAPI\<close> with request type \<open>FORM\<close> (which is what \<open>ProxyFormAPI\<close>
  makes) that sends a request has parsed the inbound request: \<open>PostForm\<close> is what the
  body parser produced, whatever the URL; the mapping rebuilt from it holds, for a
  \<open>PostForm\<close> with distinct keys, the same entries in the same order with all their
  values (entries without values aside); the body of the request sent is the encoding
  of what the form interceptor makes of that mapping, or of the mapping itself without
  interceptor; and the same call on a request that differs in its URL alone sends the
  same body, so that a parameter of the query string alone never reaches it.
\<close>

theorem form_call_sends_post_form:
  assumes "ProxyAPI env c method path httpReq writer ProxyRequestTypeForm opts = out"
    and "out_sent out = [apiReq]"
    and "distinct (map fst (fst (parsed_PostForm env httpReq)))"
  shows "ProxyFormAPI env c method path httpReq writer opts = out
       \<and> PostForm (out_req out) = Some (fst (parsed_PostForm env httpReq))
       \<and> rebuild_form (fst (parsed_PostForm env httpReq))
           = filter (\<lambda>kv. snd kv \<noteq> []) (fst (parsed_PostForm env httpReq))
       \<and> (\<forall>k. values_of_key (rebuild_form (fst (parsed_PostForm env httpReq))) k
                = values_of_key (fst (parsed_PostForm env httpReq)) k)
       \<and> apiBody apiReq =
           StringsReader (values_Encode
             (case RequestFormInterceptor (build_options c opts) of
                Some g \<Rightarrow> g (rebuild_form (fst (parsed_PostForm env httpReq)))
              | None \<Rightarrow> rebuild_form (fst (parsed_PostForm env httpReq))))
       \<and> (\<forall>u. parsed_PostForm env (httpReq\<lparr>URL := u\<rparr>) = parsed_PostForm env httpReq)
       \<and> (\<forall>u apiReq'.
             out_sent (ProxyAPI env c method path (httpReq\<lparr>URL := u\<rparr>) writer
                         ProxyRequestTypeForm opts) = [apiReq'] \<longrightarrow>
             apiBody apiReq' = apiBody apiReq)"
proof -
  let ?opt = "build_options c opts"
  note sent = ProxyAPI_sent_request [OF assms(1,2)]
  have ok0: "snd (ParseForm env httpReq) = None"
    using sent(3) by (simp add: reqParseFunc_Form parseFormRequest_parse)
  note ok = parseFormRequest_ok [OF ok0]
  have f: "ProxyFormAPI env c method path httpReq writer opts = out"
    using assms(1) by (simp add: ProxyFormAPI_def)
  have p: "PostForm (out_req out) = Some (fst (parsed_PostForm env httpReq))"
    using ProxyAPI_out_req [OF assms(1)] ok(3)
    by (simp add: reqParseFunc_Form parseFormRequest_parse)
  have r: "rebuild_form (fst (parsed_PostForm env httpReq))
           = filter (\<lambda>kv. snd kv \<noteq> []) (fst (parsed_PostForm env httpReq))"
    by (rule rebuild_form_distinct [OF assms(3)])
  have v: "\<forall>k. values_of_key (rebuild_form (fst (parsed_PostForm env httpReq))) k
                = values_of_key (fst (parsed_PostForm env httpReq)) k"
    unfolding r by (simp add: values_of_key_nonempty [OF assms(3)])
  have b: "apiBody apiReq =
           StringsReader (values_Encode
             (case RequestFormInterceptor ?opt of
                Some g \<Rightarrow> g (rebuild_form (fst (parsed_PostForm env httpReq)))
              | None \<Rightarrow> rebuild_form (fst (parsed_PostForm env httpReq))))"
    using sent(4) ok(2) [of ?opt] by (simp add: reqParseFunc_Form)
  have q: "\<forall>u. parsed_PostForm env (httpReq\<lparr>URL := u\<rparr>) = parsed_PostForm env httpReq"
    by (simp add: parsed_PostForm_URL)
  have u: "\<forall>u apiReq'.
             out_sent (ProxyAPI env c method path (httpReq\<lparr>URL := u\<rparr>) writer
                         ProxyRequestTypeForm opts) = [apiReq'] \<longrightarrow>
             apiBody apiReq' = apiBody apiReq"
  proof (intro allI impI)
    fix u apiReq'
    assume s: "out_sent (ProxyAPI env c method path (httpReq\<lparr>URL := u\<rparr>) writer
                         ProxyRequestTypeForm opts) = [apiReq']"
    note sent' = ProxyAPI_sent_request [OF refl s]
    have "snd (ParseForm env (httpReq\<lparr>URL := u\<rparr>)) = None"
      using sent'(3) by (simp add: reqParseFunc_Form parseFormRequest_parse)
    from parseFormRequest_ok(2) [OF this, of ?opt] sent'(4)
    show "apiBody apiReq' = apiBody apiReq"
      unfolding b parsed_PostForm_URL by (simp add: reqParseFunc_Form)
  qed
  show ?thesis
    by (insert f p r v b q u, (intro conjI; assumption))
qed

text \<open>
  Witness for C10: the body \<open>b=x%26y&a=1&a=2+3\<close> posted as
  \<open>application/x-www-form-urlencoded\<close> to a URL with query \<open>q=z\<close>. The body sent is
  \<open>a=1&a=2+3&b=x%26y\<close>: the keys sorted, both values of \<open>a\<close> kept, the values
  escaped again, and no \<open>q\<close>, although \<open>Form\<close> holds it; it is the body sent for the
  same request without query string. With an interceptor that drops \<open>b\<close> the body sent
  is \<open>a=1&a=2+3\<close>.
\<close>

theorem form_call_sends_post_form_witness:
  "map apiBody (out_sent (ProxyAPI form_env (answering plain_response) [] [] form_post fresh_sink
       ProxyRequestTypeForm [])) = [StringsReader ''a=1&a=2+3&b=x%26y'']
   \<and> map apiBody (out_sent (ProxyAPI form_env (answering plain_response) [] [] form_post fresh_sink
       ProxyRequestTypeForm [WithRequestFormInterceptor drop_b])) = [StringsReader ''a=1&a=2+3'']
   \<and> PostForm (out_req (ProxyAPI form_env (answering plain_response) [] [] form_post fresh_sink
       ProxyRequestTypeForm [])) = Some [(''b'', [''x&y'']), (''a'', [''1'', ''2 3''])]
   \<and> Form (out_req (ProxyAPI form_env (answering plain_response) [] [] form_post fresh_sink
       ProxyRequestTypeForm []))
     = Some [(''b'', [''x&y'']), (''a'', [''1'', ''2 3'']), (''q'', [''z''])]
   \<and> map apiBody (out_sent (ProxyAPI form_env (answering plain_response) [] []
       (form_post\<lparr>URL := \<lparr>Path = ''/submit'', RawQuery = [], Fragment = []\<rparr>\<rparr>) fresh_sink
       ProxyRequestTypeForm [])) = [StringsReader ''a=1&a=2+3&b=x%26y'']"
proof -
  let ?o1 = "[] :: (bytes options \<Rightarrow> bytes options) list"
  let ?o2 = "[WithRequestFormInterceptor drop_b] :: (bytes options \<Rightarrow> bytes options) list"
  let ?out1 = "ProxyAPI form_env (answering plain_response) [] [] form_post fresh_sink
       ProxyRequestTypeForm ?o1"
  let ?out2 = "ProxyAPI form_env (answering plain_response) [] [] form_post fresh_sink
       ProxyRequestTypeForm ?o2"
  have pp: "parsed_PostForm form_env form_post = ([(''b'', [''x&y'']), (''a'', [''1'', ''2 3''])], None)"
    by (simp add: parsed_PostForm_def parsePostForm_def header_Get_def values_of_def
        Let_def form_env_def form_post_def example_env_def)
  have pf: "ParseForm form_env form_post =
      (form_post\<lparr>PostForm := Some [(''b'', [''x&y'']), (''a'', [''1'', ''2 3''])],
                 Form := Some [(''b'', [''x&y'']), (''a'', [''1'', ''2 3'']), (''q'', [''z''])]\<rparr>, None)"
    by (simp add: ParseForm_def pp Let_def)
       (simp add: form_env_def form_post_def example_env_def copyValues_def)
  have e1: "enc_err (parseFormRequest form_env form_post opt) = None" for opt
    by (simp add: parseFormRequest_def pf Let_def)
  have s1: "out_sent ?out1 = [hd (out_sent ?out1)]"
    by (simp add: ProxyAPI_def Let_def reqParseFunc_def ProxyRequestTypeForm_def
        ProxyRequestTypeRaw_def e1 answering_def)
  have s2: "out_sent ?out2 = [hd (out_sent ?out2)]"
    by (simp add: ProxyAPI_def Let_def reqParseFunc_def ProxyRequestTypeForm_def
        ProxyRequestTypeRaw_def e1 answering_def)
  have d: "distinct (map fst (fst (parsed_PostForm form_env form_post)))"
    by (simp add: pp)
  have i1: "RequestFormInterceptor (build_options (answering plain_response) ?o1) = None"
    by (simp add: build_options_def)
  have i2: "RequestFormInterceptor (build_options (answering plain_response) ?o2) = Some drop_b"
    by (simp add: build_options_def WithRequestFormInterceptor_def)
  note T1 = form_call_sends_post_form [OF refl s1 d]
  note T2 = form_call_sends_post_form [OF refl s2 d]
  have rb: "rebuild_form (fst (parsed_PostForm form_env form_post))
      = [(''b'', [''x&y'']), (''a'', [''1'', ''2 3''])]"
    using T1 [THEN conjunct2, THEN conjunct2, THEN conjunct1] by (simp add: pp)
  have v1: "values_Encode [(''b'', [''x&y'']), (''a'', [''1'', ''2 3''])] = ''a=1&a=2+3&b=x%26y''"
    by (simp add: values_Encode_def sort_keys_def values_of_key_def encode_pair_def QueryEscape_def
        escape_def escape_byte_def shouldEscape_def upperhex_def lowers_def uppers_def digits_def)
  have v2: "values_Encode (drop_b [(''b'', [''x&y'']), (''a'', [''1'', ''2 3''])]) = ''a=1&a=2+3''"
    by (simp add: drop_b_def values_Encode_def sort_keys_def values_of_key_def encode_pair_def
        QueryEscape_def escape_def escape_byte_def shouldEscape_def upperhex_def lowers_def
        uppers_def digits_def)
  have a: "apiBody (hd (out_sent ?out1)) = StringsReader ''a=1&a=2+3&b=x%26y''"
    using T1 [THEN conjunct2, THEN conjunct2, THEN conjunct2, THEN conjunct2, THEN conjunct1]
    by (simp add: i1 rb v1)
  have b: "apiBody (hd (out_sent ?out2)) = StringsReader ''a=1&a=2+3''"
    using T2 [THEN conjunct2, THEN conjunct2, THEN conjunct2, THEN conjunct2, THEN conjunct1]
    by (simp add: i2 rb v2)
  have c: "PostForm (out_req ?out1) = Some [(''b'', [''x&y'']), (''a'', [''1'', ''2 3''])]"
    using T1 [THEN conjunct2, THEN conjunct1] by (simp add: pp)
  have rq: "out_req ?out1 = fst (ParseForm form_env form_post)"
    by (simp add: ProxyAPI_out_req [OF refl] reqParseFunc_Form parseFormRequest_parse)
  have f: "Form (out_req ?out1)
     = Some [(''b'', [''x&y'']), (''a'', [''1'', ''2 3'']), (''q'', [''z''])]"
    unfolding rq pf by simp
  have m1: "map apiBody (out_sent ?out1) = [apiBody (hd (out_sent ?out1))]"
    by (rule map_single [OF s1])
  have m2: "map apiBody (out_sent ?out2) = [apiBody (hd (out_sent ?out2))]"
    by (rule map_single [OF s2])
  let ?req3 = "form_post\<lparr>URL := \<lparr>Path = ''/submit'', RawQuery = [], Fragment = []\<rparr>\<rparr>"
  let ?out3 = "ProxyAPI form_env (answering plain_response) [] [] ?req3 fresh_sink
       ProxyRequestTypeForm ?o1"
  have q3: "snd (ParseForm form_env ?req3) = None"
    unfolding ParseForm_def parsed_PostForm_URL pp Let_def
    by (simp add: form_env_def form_post_def example_env_def)
  have e3: "enc_err (parseFormRequest form_env ?req3 opt) = None" for opt
    unfolding parseFormRequest_parse by (rule q3)
  have s3: "out_sent ?out3 = [hd (out_sent ?out3)]"
    by (simp add: ProxyAPI_def Let_def reqParseFunc_def ProxyRequestTypeForm_def
        ProxyRequestTypeRaw_def e3 answering_def)
  have "apiBody (hd (out_sent ?out3)) = apiBody (hd (out_sent ?out1))"
    using T1 [THEN conjunct2, THEN conjunct2, THEN conjunct2, THEN conjunct2, THEN conjunct2,
        THEN conjunct2, rule_format, OF s3] .
  then have a3: "apiBody (hd (out_sent ?out3)) = StringsReader ''a=1&a=2+3&b=x%26y''"
    by (simp only: a)
  have m3: "map apiBody (out_sent ?out3) = [apiBody (hd (out_sent ?out3))]"
    by (rule map_single [OF s3])
  show ?thesis
    unfolding m1 m2 m3 a b a3 using c f by simp
qed

subsection \<open>The multipart encoder\<close>

lemmas multipart_defs =
  parseMultipartFormRequest_def ParseMultipartForm_def ParseForm_def parsed_PostForm_def
  ReadForm_def maxFileMemoryBytes_of_def maxMemoryBytes_of_def mimeHeaderSize_def header_lines_def
  header_readable_def parsePostForm_def copyValues_def NewWriter_def WriteField_def CreateFormFile_def copy_to_part_def
  append_to_last_def mwriter_Close_def FormDataContentType_def enc_fail_def

lemma copy_file_values_closes:
  "copy_file_values mw [] k vv = (hs, Inr mw') \<Longrightarrow> hs = []"
proof (induction vv arbitrary: mw)
  case Nil
  then show ?case by simp
next
  case (Cons v vv)
  then show ?case
    by (auto simp: CreateFormFile_def copy_to_part_def split: option.splits sum.splits prod.splits)
qed

lemma copy_files_closes:
  "copy_files mw [] fs = (hs, Inr mw') \<Longrightarrow> hs = []"
proof (induction fs arbitrary: mw)
  case Nil
  then show ?case by simp
next
  case (Cons kv fs)
  obtain k vv where kv: "kv = (k, vv)" by (cases kv)
  show ?case
  proof (cases "copy_file_values mw [] k vv")
    case (Pair hs1 r)
    show ?thesis
    proof (cases r)
      case (Inl e)
      then show ?thesis using Cons.prems kv Pair by simp
    next
      case (Inr mw1)
      then have "hs1 = []"
        using Pair copy_file_values_closes by simp
      then show ?thesis
        using Cons.IH [of mw1] Cons.prems kv Pair Inr by simp
    qed
  qed
qed

lemma parseMultipartFormRequest_success_closes:
  "enc_err (parseMultipartFormRequest env req opt) = None \<Longrightarrow>
   enc_files (parseMultipartFormRequest env req opt) = []"
  by (auto simp: parseMultipartFormRequest_def enc_fail_def Let_def
      dest: copy_files_closes split: prod.splits option.splits sum.splits)

text \<open>
  C7 (the code at the failing input). \<open>MaxUploadSize\<close> is one byte; the inbound
  multipart body carries a five-byte file. \<open>ParseMultipartForm\<close> takes the option as
  its in-memory threshold, so the file is accepted, the encoder succeeds, and the whole
  file is handed to the collaborator.
\<close>

theorem oversized_upload_is_forwarded:
  "MaxUploadSize (build_options (answering plain_response) [WithMaxUploadSize 1] :: bytes options) = 1
   \<and> out_err (ProxyAPI upload_env (answering plain_response) [] [] upload_post fresh_sink
       ProxyRequestTypeMultipartForm [WithMaxUploadSize 1]) = None
   \<and> map apiBody (out_sent (ProxyAPI upload_env (answering plain_response) [] [] upload_post
       fresh_sink ProxyRequestTypeMultipartForm [WithMaxUploadSize 1]))
     = [MultipartBuffer
          \<lparr>boundary = ''b0undary'',
           parts = [FieldPart ''title'' ''t'', FilePart ''f'' ''a.txt'' ''hello''],
           finished = True\<rparr>]"
  by (simp add: eval_defs example_defs multipart_defs upload_env_def upload_post_def
      WithMaxUploadSize_def)

text \<open>
  C8 (the code at the failing input). The uploaded file is opened, its part is created,
  and reading it fails after two bytes: the encoder returns the read error through the
  \<open>return\<close> of the copy step, which lies before \<open>f.Close()\<close>, so the handle of
  \<open>a.txt\<close> is still open when the call returns.
\<close>

theorem failed_copy_leaves_file_open:
  "out_files (ProxyAPI unreadable_upload_env (answering plain_response) [] [] upload_post
       fresh_sink ProxyRequestTypeMultipartForm []) = [(''f'', ''a.txt'')]
   \<and> out_err (ProxyAPI unreadable_upload_env (answering plain_response) [] [] upload_post
       fresh_sink ProxyRequestTypeMultipartForm []) = Some ErrRead
   \<and> out_sent (ProxyAPI unreadable_upload_env (answering plain_response) [] [] upload_post
       fresh_sink ProxyRequestTypeMultipartForm []) = []"
  by (simp add: eval_defs example_defs multipart_defs unreadable_upload_env_def upload_post_def)

end
